theory Spec2Isabelle
  imports Main "HOL-Library.Word"
begin

section \<open>Shared control logic of the ONTAP storage drivers (ontap\_common.go)\<close>

text \<open>
  The Go file is embedded function by function. Go strings are \<open>string\<close>s (byte lists),
  \<open>uint64\<close> is \<open>64 word\<close>, a nil-able pointer is an \<open>option\<close>. Every
  \<open>fmt.Errorf\<close> / \<open>errors.New\<close> site of the modelled functions is one constructor of
  \<open>ontap_error\<close>, carrying the arguments of its format string; a run-time panic (nil
  dereference, index out of range) is the constructor \<open>RuntimePanic\<close>. The packages
  \<open>api\<close>, \<open>azgo\<close>, \<open>drivers\<close>, \<open>utils\<close>, \<open>storage\<close> and \<open>trident\<close> are not part
  of the file: what the functions use of them is passed in as a parameter. Logging is kept
  only where a claim is about it; the \<open>DebugTraceFlags\<close> tracing is left out.
\<close>

subsection \<open>Constants\<close>

definition LSMirrorIdleTimeoutSecs :: nat where
  "LSMirrorIdleTimeoutSecs = 30"

definition MinimumVolumeSizeBytes :: "64 word" where
  "MinimumVolumeSizeBytes = 20971520"

definition HousekeepingStartupDelaySecs :: nat where
  "HousekeepingStartupDelaySecs = 10"

definition DefaultSpaceReserve :: string where
  "DefaultSpaceReserve = ''none''"

definition DefaultSnapshotPolicy :: string where
  "DefaultSnapshotPolicy = ''none''"

definition DefaultUnixPermissions :: string where
  "DefaultUnixPermissions = ''---rwxrwxrwx''"

definition DefaultSnapshotDir :: string where
  "DefaultSnapshotDir = ''false''"

definition DefaultExportPolicy :: string where
  "DefaultExportPolicy = ''default''"

definition DefaultSecurityStyle :: string where
  "DefaultSecurityStyle = ''unix''"

definition DefaultNfsMountOptions :: string where
  "DefaultNfsMountOptions = ''-o nfsvers=3''"

definition DefaultSplitOnClone :: string where
  "DefaultSplitOnClone = ''false''"

definition DefaultFileSystemType :: string where
  "DefaultFileSystemType = ''ext4''"

definition DefaultEncryption :: string where
  "DefaultEncryption = ''false''"

subsection \<open>Configuration and errors\<close>

text \<open>
  \<open>drivers.OntapStorageDriverConfig\<close> embeds \<open>*drivers.CommonStorageDriverConfig\<close>; the
  record extension mirrors the embedding. \<open>StoragePrefix\<close> is a \<open>*string\<close>.
\<close>

record CommonStorageDriverConfig =
  StorageDriverName :: string
  DriverContext :: string
  StoragePrefix :: "string option"

record OntapStorageDriverConfig = CommonStorageDriverConfig +
  ManagementLIF :: string
  DataLIF :: string
  SVM :: string
  Username :: string
  Password :: string
  Aggregate :: string
  UsageHeartbeat :: string
  Size :: string
  SpaceReserve :: string
  SnapshotPolicy :: string
  UnixPermissions :: string
  SnapshotDir :: string
  ExportPolicy :: string
  SecurityStyle :: string
  NfsMountOptions :: string
  SplitOnClone :: string
  FileSystemType :: string
  Encryption :: string

text \<open>
  A failed call of the management API: a Go \<open>error\<close> of the transport (its message), or
  a ZAPI reply whose status is not "passed" (\<open>api.ZapiError\<close>, with its code and reason).
\<close>

record ZapiError =
  code :: string
  reason :: string

datatype api_error = GoError string | ZapiFailed ZapiError

datatype ontap_error =
    ErrEnumeratingSVMs api_error
  | ErrCannotDeriveSVM
  | ErrInvalidDefaultVolumeSize string
  | ErrInvalidSplitOnClone string
  | ErrVolumeTooSmall "64 word" "64 word"
  | ErrCheckingExistingVolume api_error
  | ErrVolumeAlreadyExists string
  | ErrCreatingSnapshot api_error
  | ErrCreatingClone api_error
  | ErrSnapshotDoesNotExist string string
  | ErrMountingVolume api_error
  | ErrSplittingClone api_error
  | ErrApi api_error
  | ErrNoAssignedAggregates string
  | ErrAggregateNotIncluded string string
  | ErrUnableToInspect string
  | RuntimePanic

subsection \<open>Go standard library: strconv.ParseBool, strconv.ParseUint, strings.Replace\<close>

text \<open>\<open>strconv.ParseBool\<close> accepts exactly twelve spellings; \<open>None\<close> is its error.\<close>

definition ParseBool :: "string \<Rightarrow> bool option" where
  "ParseBool str =
     (if str \<in> set [''1'', ''t'', ''T'', ''TRUE'', ''true'', ''True''] then Some True
      else if str \<in> set [''0'', ''f'', ''F'', ''FALSE'', ''false'', ''False''] then Some False
      else None)"

text \<open>
  \<open>strconv.ParseUint(s, 10, 64)\<close> returns a value and an error. The value is 0 on a syntax
  error and \<open>2^64 - 1\<close> on a range error, which is reported at the digit where the
  accumulator overflows, before the rest of the string is read. The second component is
  \<open>True\<close> when the error is nil.
\<close>

definition is_digit :: "char \<Rightarrow> bool" where
  "is_digit c = (48 \<le> (of_char c :: nat) \<and> (of_char c :: nat) \<le> 57)"

definition maxUint64 :: nat where
  "maxUint64 = 18446744073709551615"

fun ParseUint_loop :: "nat \<Rightarrow> string \<Rightarrow> nat \<times> bool" where
  "ParseUint_loop n [] = (n, True)"
| "ParseUint_loop n (c # cs) =
     (if \<not> is_digit c then (0, False)
      else if n \<ge> maxUint64 div 10 + 1 then (maxUint64, False)
      else let n1 = n * 10 + (of_char c - 48)
           in if n1 > maxUint64 then (maxUint64, False) else ParseUint_loop n1 cs)"

definition ParseUint :: "string \<Rightarrow> 64 word \<times> bool" where
  "ParseUint s =
     (if s = [] then (0, False)
      else let (n, ok) = ParseUint_loop 0 s in (of_nat n, ok))"

text \<open>
  \<open>strings.Replace(s, old, new, -1)\<close>: every non-overlapping occurrence of \<open>old\<close>, found
  from the left, is replaced. For an empty \<open>old\<close> Go inserts \<open>new\<close> before every
  character and at the end (at rune boundaries; bytes here).
\<close>

fun Replace :: "string \<Rightarrow> string \<Rightarrow> string \<Rightarrow> string" where
  "Replace s [] new = new @ concat (map (\<lambda>c. c # new) s)"
| "Replace [] (p # ps) new = []"
| "Replace (c # cs) (p # ps) new =
     (if take (length ps) cs = ps \<and> c = p
      then new @ Replace (drop (length ps) cs) (p # ps) new
      else c # Replace cs (p # ps) new)"

subsection \<open>PopulateConfigurationDefaults\<close>

text \<open>
  What the functions use of package \<open>drivers\<close> and \<open>utils\<close>: the constants
  \<open>drivers.DefaultVolumeSize\<close> and \<open>drivers.OntapNASStorageDriverName\<close>,
  \<open>drivers.GetDefaultStoragePrefix\<close>, and \<open>utils.ConvertSizeToBytes\<close>, which returns a
  string and an error (\<open>None\<close> is nil).
\<close>

record drivers_env =
  DefaultVolumeSize :: string
  OntapNASStorageDriverName :: string
  GetDefaultStoragePrefix :: "string \<Rightarrow> string"
  ConvertSizeToBytes :: "string \<Rightarrow> string \<times> string option"

text \<open>
  The Go function mutates the configuration in place and returns an error; the model returns
  the configuration as it stands at the return, and the error (\<open>None\<close> is nil).
\<close>

definition PopulateConfigurationDefaults ::
  "drivers_env \<Rightarrow> OntapStorageDriverConfig \<Rightarrow> OntapStorageDriverConfig \<times> ontap_error option" where
  "PopulateConfigurationDefaults env config0 =
     (let config1 = (if Size config0 = [] then config0\<lparr>Size := DefaultVolumeSize env\<rparr> else config0);
          sizeErr = (if Size config0 = [] then None else snd (ConvertSizeToBytes env (Size config0)))
      in case sizeErr of
           Some err \<Rightarrow> (config1, Some (ErrInvalidDefaultVolumeSize err))
         | None \<Rightarrow>
           (let config2 = (if StoragePrefix config1 = None
                           then config1\<lparr>StoragePrefix :=
                                  Some (GetDefaultStoragePrefix env (DriverContext config1))\<rparr>
                           else config1);
                config3 = (if SpaceReserve config2 = []
                           then config2\<lparr>SpaceReserve := DefaultSpaceReserve\<rparr> else config2);
                config4 = (if SnapshotPolicy config3 = []
                           then config3\<lparr>SnapshotPolicy := DefaultSnapshotPolicy\<rparr> else config3);
                config5 = (if UnixPermissions config4 = []
                           then config4\<lparr>UnixPermissions := DefaultUnixPermissions\<rparr> else config4);
                config6 = (if SnapshotDir config5 = []
                           then config5\<lparr>SnapshotDir := DefaultSnapshotDir\<rparr> else config5);
                config7 = (if ExportPolicy config6 = []
                           then config6\<lparr>ExportPolicy := DefaultExportPolicy\<rparr> else config6);
                config8 = (if SecurityStyle config7 = []
                           then config7\<lparr>SecurityStyle := DefaultSecurityStyle\<rparr> else config7);
                config9 = (if NfsMountOptions config8 = []
                           then config8\<lparr>NfsMountOptions := DefaultNfsMountOptions\<rparr> else config8)
            in if SplitOnClone config9 \<noteq> [] \<and> ParseBool (SplitOnClone config9) = None
               then (config9, Some (ErrInvalidSplitOnClone (SplitOnClone config9)))
               else
                 (let config10 = (if SplitOnClone config9 = []
                                  then config9\<lparr>SplitOnClone := DefaultSplitOnClone\<rparr> else config9);
                      config11 = (if FileSystemType config10 = []
                                  then config10\<lparr>FileSystemType := DefaultFileSystemType\<rparr>
                                  else config10);
                      config12 = (if Encryption config11 = []
                                  then config11\<lparr>Encryption := DefaultEncryption\<rparr> else config11)
                  in (config12, None))))"

subsection \<open>GetVolumeSize\<close>

text \<open>
  Both errors of the zero branch are discarded in the source (\<open>defaultSize, _ := ...\<close>,
  \<open>sizeBytes, _ = ...\<close>): only the first components are used.
\<close>

definition GetVolumeSize ::
  "drivers_env \<Rightarrow> 64 word \<Rightarrow> OntapStorageDriverConfig \<Rightarrow> ontap_error + 64 word" where
  "GetVolumeSize env sizeBytes0 config =
     (let sizeBytes = (if sizeBytes0 = 0
                       then fst (ParseUint (fst (ConvertSizeToBytes env (Size config))))
                       else sizeBytes0)
      in if sizeBytes < MinimumVolumeSizeBytes
         then Inl (ErrVolumeTooSmall sizeBytes MinimumVolumeSizeBytes)
         else Inr sizeBytes)"

subsection \<open>getInternalVolumeNameCommon\<close>

text \<open>
  \<open>trident.UsingPassthroughStore\<close> (a package variable) and
  \<open>drivers.GetCommonInternalVolumeName\<close> are parameters. Dereferencing a nil
  \<open>StoragePrefix\<close> panics.
\<close>

definition getInternalVolumeNameCommon ::
  "bool \<Rightarrow> ('a CommonStorageDriverConfig_scheme \<Rightarrow> string \<Rightarrow> string) \<Rightarrow>
   'a CommonStorageDriverConfig_scheme \<Rightarrow> string \<Rightarrow> ontap_error + string" where
  "getInternalVolumeNameCommon UsingPassthroughStore GetCommonInternalVolumeName commonConfig name =
     (if UsingPassthroughStore
      then (case StoragePrefix commonConfig of
              None \<Rightarrow> Inl RuntimePanic
            | Some prefix \<Rightarrow> Inr (prefix @ name))
      else
        (let internal0 = GetCommonInternalVolumeName commonConfig name;
             internal1 = Replace internal0 ''-'' ''_'';
             internal2 = Replace internal1 ''.'' ''_'';
             internal3 = Replace internal2 ''__'' ''_''
         in Inr internal3))"

subsection \<open>InitializeOntapAPI\<close>

text \<open>
  An \<open>api.Client\<close> is modelled by the \<open>api.ClientConfig\<close> it was built from. The reply to
  \<open>VserverGetIterRequest\<close> carries a record count and the list of SVM names. The call
  together with \<open>api.GetError\<close> is one parameter: \<open>Inl\<close> when \<open>GetError\<close> returns an
  error, \<open>Inr\<close> the reply otherwise; it is issued through the first, unscoped client.
\<close>

record ClientConfig =
  client_ManagementLIF :: string
  client_SVM :: string
  client_Username :: string
  client_Password :: string

record VserverGetIterResult =
  vserver_NumRecords :: int
  vserver_AttributesList :: "string list"

definition NewClient :: "OntapStorageDriverConfig \<Rightarrow> ClientConfig" where
  "NewClient config =
     \<lparr>client_ManagementLIF = ManagementLIF config, client_SVM = SVM config,
      client_Username = Username config, client_Password = Password config\<rparr>"

definition InitializeOntapAPI ::
  "(ClientConfig \<Rightarrow> api_error + VserverGetIterResult) \<Rightarrow> OntapStorageDriverConfig \<Rightarrow>
   OntapStorageDriverConfig \<times> (ontap_error + ClientConfig)" where
  "InitializeOntapAPI VserverGetIterRequest config =
     (let client = NewClient config
      in if SVM config \<noteq> [] then (config, Inr client)
         else
           (case VserverGetIterRequest client of
              Inl err \<Rightarrow> (config, Inl (ErrEnumeratingSVMs err))
            | Inr vserverResponse \<Rightarrow>
                if vserver_NumRecords vserverResponse \<noteq> 1
                then (config, Inl ErrCannotDeriveSVM)
                else
                  (case vserver_AttributesList vserverResponse of
                     [] \<Rightarrow> (config, Inl RuntimePanic)
                   | VserverName # _ \<Rightarrow>
                       (let config' = config\<lparr>SVM := VserverName\<rparr>
                        in (config', Inr (NewClient config'))))))"

subsection \<open>Telemetry: NewOntapTelemetry, Start, Stop\<close>

text \<open>
  \<open>ticker\<close> is a \<open>*time.Ticker\<close>: \<open>None\<close> is nil, \<open>Some d\<close> a ticker of period \<open>d\<close>
  (a \<open>time.Duration\<close>, in nanoseconds). The floating-point computation of
  \<open>durationInHours\<close> from \<open>UsageHeartbeat\<close> is not modelled: its result is a parameter.
  Dereferencing a nil \<open>StoragePrefix\<close> panics.
\<close>

record Telemetry =
  Plugin :: string
  telemetry_SVM :: string
  telemetry_StoragePrefix :: string
  ticker :: "int option"

definition NewOntapTelemetry ::
  "string \<Rightarrow> OntapStorageDriverConfig \<Rightarrow> int \<Rightarrow> ontap_error + Telemetry" where
  "NewOntapTelemetry driverName config durationInHours =
     (case StoragePrefix config of
        None \<Rightarrow> Inl RuntimePanic
      | Some prefix \<Rightarrow>
          (let t = \<lparr>Plugin = driverName, telemetry_SVM = SVM config,
                    telemetry_StoragePrefix = prefix, ticker = None\<rparr>
           in Inr (if durationInHours > 0 then t\<lparr>ticker := Some durationInHours\<rparr> else t)))"

text \<open>
  The goroutine of \<open>Start\<close>, run against a schedule: the list says, for each \<open>select\<close> in
  turn, which channel becomes ready. Entering the \<open>select\<close> evaluates \<open>t.ticker.C\<close>, which
  is a nil-pointer dereference when \<open>ticker\<close> is nil: the goroutine panics. When the
  schedule is used up the goroutine is still blocked in the \<open>select\<close>.
\<close>

datatype channel_ready = TickerC | DoneClosed

datatype task_action = Sleep nat | EMSHeartbeat

datatype task_end = TaskReturned | TaskPanicked | TaskBlocked

fun Start_loop :: "Telemetry \<Rightarrow> channel_ready list \<Rightarrow> task_action list \<times> task_end" where
  "Start_loop t schedule =
     (case ticker t of
        None \<Rightarrow> ([], TaskPanicked)
      | Some _ \<Rightarrow>
          (case schedule of
             [] \<Rightarrow> ([], TaskBlocked)
           | TickerC # rest \<Rightarrow>
               (let (actions, e) = Start_loop t rest in (EMSHeartbeat # actions, e))
           | DoneClosed # rest \<Rightarrow> ([], TaskReturned)))"

definition Start :: "Telemetry \<Rightarrow> channel_ready list \<Rightarrow> task_action list \<times> task_end" where
  "Start t schedule =
     (let (actions, e) = Start_loop t schedule
      in (Sleep HousekeepingStartupDelaySecs # EMSHeartbeat # actions, e))"

text \<open>
  \<open>Stop\<close> stops the ticker only when there is one, then closes the \<open>done\<close> channel; the
  model returns what it did, in order.
\<close>

datatype stop_action = TickerStop | CloseDone

definition Stop :: "Telemetry \<Rightarrow> stop_action list" where
  "Stop t = (if ticker t \<noteq> None then [TickerStop] else []) @ [CloseDone]"

subsection \<open>CreateOntapClone\<close>

text \<open>
  The management API as the workflow uses it. \<open>VolumeExists\<close> returns a bool and an error.
  For the other calls the model gives the error that \<open>api.GetError\<close> (or, for
  \<open>VolumeCloneCreate\<close>, the \<open>err\<close> test followed by \<open>api.NewZapiError\<close>) finds, \<open>None\<close>
  for a reply that passed. \<open>EOBJECTNOTFOUND\<close> is the constant of package \<open>azgo\<close>. The
  workflow returns its error together with the remote calls it made, in order.
\<close>

record clone_api =
  VolumeExists :: "string \<Rightarrow> api_error + bool"
  SnapshotCreate :: "string \<Rightarrow> string \<Rightarrow> api_error option"
  VolumeCloneCreate :: "string \<Rightarrow> string \<Rightarrow> string \<Rightarrow> api_error option"
  VolumeMount :: "string \<Rightarrow> string \<Rightarrow> api_error option"
  VolumeCloneSplitStart :: "string \<Rightarrow> api_error option"
  EOBJECTNOTFOUND :: string

datatype api_call =
    CallVolumeExists string
  | CallSnapshotCreate string string
  | CallVolumeCloneCreate string string string
  | CallVolumeMount string string
  | CallVolumeCloneSplitStart string

text \<open>\<open>now\<close> is \<open>time.Now().UTC().Format("20060102T150405Z")\<close>.\<close>

definition CreateOntapClone ::
  "string \<Rightarrow> string \<Rightarrow> string \<Rightarrow> bool \<Rightarrow> OntapStorageDriverConfig \<Rightarrow> drivers_env \<Rightarrow>
   clone_api \<Rightarrow> string \<Rightarrow> ontap_error option \<times> api_call list" where
  "CreateOntapClone name source snapshot0 split config env client now =
     (let calls0 = [CallVolumeExists name]
      in case VolumeExists client name of
           Inl err \<Rightarrow> (Some (ErrCheckingExistingVolume err), calls0)
         | Inr volExists \<Rightarrow>
           if volExists then (Some (ErrVolumeAlreadyExists name), calls0)
           else
             (let snapshot = (if snapshot0 = [] then now else snapshot0);
                  calls1 = (if snapshot0 = [] then calls0 @ [CallSnapshotCreate snapshot source]
                            else calls0);
                  snapErr = (if snapshot0 = [] then SnapshotCreate client snapshot source else None)
              in case snapErr of
                   Some err \<Rightarrow> (Some (ErrCreatingSnapshot err), calls1)
                 | None \<Rightarrow>
                   (let calls2 = calls1 @ [CallVolumeCloneCreate name source snapshot]
                    in case VolumeCloneCreate client name source snapshot of
                         Some (GoError err) \<Rightarrow> (Some (ErrCreatingClone (GoError err)), calls2)
                       | Some (ZapiFailed zerr) \<Rightarrow>
                           if code zerr = EOBJECTNOTFOUND client
                           then (Some (ErrSnapshotDoesNotExist snapshot source), calls2)
                           else (Some (ErrCreatingClone (ZapiFailed zerr)), calls2)
                       | None \<Rightarrow>
                           (let isNAS = (StorageDriverName config = OntapNASStorageDriverName env);
                                calls3 = (if isNAS
                                          then calls2 @ [CallVolumeMount name (''/'' @ name)]
                                          else calls2);
                                mountErr = (if isNAS then VolumeMount client name (''/'' @ name)
                                            else None)
                            in case mountErr of
                                 Some err \<Rightarrow> (Some (ErrMountingVolume err), calls3)
                               | None \<Rightarrow>
                                   if split
                                   then (case VolumeCloneSplitStart client name of
                                           Some err \<Rightarrow>
                                             (Some (ErrSplittingClone err),
                                              calls3 @ [CallVolumeCloneSplitStart name])
                                         | None \<Rightarrow>
                                             (None, calls3 @ [CallVolumeCloneSplitStart name]))
                                   else (None, calls3)))))"

subsection \<open>UpdateLoadSharingMirrors\<close>

text \<open>
  A mirror is its source location and its relationship status (\<open>None\<close> when
  \<open>RelationshipStatusPtr\<close> is nil). The management API as the function uses it:
  \<open>SnapmirrorGetLoadSharingMirrors client n\<close> is the outcome of the call in polling
  iteration \<open>n\<close> (\<open>0\<close> is the call before the loop), \<open>Inl\<close> a Go error. After each of
  these calls the source passes \<open>rootVolumeResponse\<close>, which has passed by then, to
  \<open>api.GetError\<close>: only the Go error is examined, never the status of the mirror reply.
  Time is the wall clock in nanoseconds since the start of waiting; \<open>elapsed client n\<close> is
  what iteration \<open>n\<close> takes beyond its one-second sleep, up to its reading of the clock.
\<close>

record SnapmirrorInfo =
  SourceLocation :: string
  RelationshipStatus :: "string option"

record SnapmirrorGetIterResult =
  snapmirror_NumRecords :: int
  snapmirror_AttributesList :: "SnapmirrorInfo list"

record mirror_api =
  VolumeGetRootName :: "api_error + string"
  SnapmirrorGetLoadSharingMirrors :: "nat \<Rightarrow> string \<Rightarrow> string + SnapmirrorGetIterResult"
  SnapmirrorUpdateLoadSharingMirrors :: "string \<Rightarrow> string option"
  elapsed :: "nat \<Rightarrow> nat"

definition Second :: nat where
  "Second = 1000000000"

text \<open>
  How the function came to return. It has no result in Go: the model returns the reason,
  the number of polling iterations it ran and the clock at the return.
\<close>

datatype ls_exit =
    RootVolumeError | MirrorListError | NoMirrors | UpdateError
  | PollListError | MirrorsGone | MirrorsIdle | GivingUp

function poll_mirrors ::
  "mirror_api \<Rightarrow> string \<Rightarrow> nat \<Rightarrow> nat \<Rightarrow> nat \<Rightarrow> ls_exit \<times> nat \<times> nat" where
  "poll_mirrors client rootVolume timeout now n =
     (let now' = now + Second + elapsed client n
      in case SnapmirrorGetLoadSharingMirrors client n rootVolume of
           Inl err \<Rightarrow> (PollListError, n, now')
         | Inr mirrorGetResponse \<Rightarrow>
             if snapmirror_NumRecords mirrorGetResponse = 0 then (MirrorsGone, n, now')
             else if list_all (\<lambda>mirror. RelationshipStatus mirror = Some ''idle'')
                       (snapmirror_AttributesList mirrorGetResponse)
             then (MirrorsIdle, n, now')
             else if now' > timeout then (GivingUp, n, now')
             else poll_mirrors client rootVolume timeout now' (n + 1))"
  by pat_completeness auto
termination
  by (relation "measure (\<lambda>(client, rootVolume, timeout, now, n). timeout - now)")
     (auto simp: Second_def)

declare poll_mirrors.simps [simp del]

definition UpdateLoadSharingMirrors :: "mirror_api \<Rightarrow> ontap_error + ls_exit \<times> nat \<times> nat" where
  "UpdateLoadSharingMirrors client =
     (case VolumeGetRootName client of
        Inl err \<Rightarrow> Inr (RootVolumeError, 0, 0)
      | Inr rootVolume \<Rightarrow>
          (case SnapmirrorGetLoadSharingMirrors client 0 rootVolume of
             Inl err \<Rightarrow> Inr (MirrorListError, 0, 0)
           | Inr mirrorGetResponse \<Rightarrow>
               if snapmirror_NumRecords mirrorGetResponse = 0 then Inr (NoMirrors, 0, 0)
               else
                 (case snapmirror_AttributesList mirrorGetResponse of
                    [] \<Rightarrow> Inl RuntimePanic
                  | mirror # _ \<Rightarrow>
                      (case SnapmirrorUpdateLoadSharingMirrors client (SourceLocation mirror) of
                         Some err \<Rightarrow> Inr (UpdateError, 0, 0)
                       | None \<Rightarrow>
                           Inr (poll_mirrors client rootVolume
                                  (LSMirrorIdleTimeoutSecs * Second) 0 1)))))"

subsection \<open>Pool discovery: getStorageBackendSpecsCommon\<close>

text \<open>
  Of package \<open>sa\<close> (storage attributes) the code uses the attribute name \<open>sa.Media\<close>, the
  media names \<open>sa.HDD\<close>, \<open>sa.Hybrid\<close>, \<open>sa.SSD\<close> and \<open>sa.NewStringOffer\<close>; the four
  strings are parameters. An offer is a string offer or one built elsewhere by the driver.
\<close>

datatype Offer = NewStringOffer string | OtherOffer string

record sa_pkg =
  Media :: string
  HDD :: string
  Hybrid :: string
  SSD :: string

text \<open>
  Modelled from the spec: \<open>storage.Pool\<close>, \<open>storage.NewStoragePool\<close> and
  \<open>Backend.AddStoragePool\<close> of package \<open>storage\<close> are not in the source. A capacity pool
  is keyed by its name, is owned by a backend and holds a mapping of attribute name to
  offer; a new pool has no attribute, and the backend's pools are a map from pool name to
  pool, in which adding a pool stores it under its name.
\<close>

record Pool =
  Name :: string
  Attributes :: "string \<rightharpoonup> Offer"

definition NewStoragePool :: "string \<Rightarrow> Pool" where
  "NewStoragePool name = \<lparr>Name = name, Attributes = Map.empty\<rparr>"

definition AddStoragePool :: "(string \<rightharpoonup> Pool) \<Rightarrow> Pool \<Rightarrow> (string \<rightharpoonup> Pool)" where
  "AddStoragePool backend pool = backend(Name pool \<mapsto> pool)"

definition ontapPerformanceClasses :: "sa_pkg \<Rightarrow> string \<Rightarrow> (string \<rightharpoonup> Offer) option" where
  "ontapPerformanceClasses sa class =
     (if class = ''hdd'' then Some [Media sa \<mapsto> NewStringOffer (HDD sa)]
      else if class = ''hybrid'' then Some [Media sa \<mapsto> NewStringOffer (Hybrid sa)]
      else if class = ''ssd'' then Some [Media sa \<mapsto> NewStringOffer (SSD sa)]
      else None)"

text \<open>
  A call of the API layer returns or panics; the deferred \<open>recover\<close> of
  \<open>getStorageBackendSpecsCommon\<close> turns a panic into an error. The replies of
  \<open>vserver-show-aggr-get-iter\<close> and \<open>aggr-get-iter\<close> are lists of aggregate name and
  aggregate type; \<open>Inl\<close> is the Go error or the ZAPI error of a reply that did not pass.
  \<open>IsScopeError\<close> is the method of \<open>api.ZapiError\<close>. The log keeps the warnings and
  errors, each with the start of its message.
\<close>

datatype 'a api_return = ApiPanic string | ApiReturn 'a

datatype log_entry = LogWarn string | LogError string

record aggr_api =
  GetVserverAggregateNames :: "(api_error + string list) api_return"
  SupportsFeature_VServerShowAggr :: bool
  VserverShowAggrGetIterRequest :: "(api_error + (string \<times> string) list) api_return"
  AggrGetIterRequest :: "(api_error + (string \<times> string) list) api_return"
  IsScopeError :: "ZapiError \<Rightarrow> bool"

text \<open>
  The loop over the returned aggregates, which is the same text in
  \<open>getVserverAggregateAttributes\<close> and \<open>getClusterAggregateAttributes\<close>.
\<close>

fun update_pools ::
  "sa_pkg \<Rightarrow> (string \<times> string) list \<Rightarrow> (string \<rightharpoonup> Pool) \<Rightarrow>
   (string \<rightharpoonup> Pool) \<times> log_entry list" where
  "update_pools sa [] storagePools = (storagePools, [])"
| "update_pools sa ((aggrName, aggrType) # rest) storagePools =
     (case storagePools aggrName of
        None \<Rightarrow> update_pools sa rest storagePools
      | Some pool \<Rightarrow>
          (case ontapPerformanceClasses sa aggrType of
             None \<Rightarrow>
               (let (pools, log) = update_pools sa rest storagePools
                in (pools, LogWarn ''Aggregate has unknown media type.'' # log))
           | Some storageAttrs \<Rightarrow>
               update_pools sa rest
                 (storagePools(aggrName \<mapsto>
                    pool\<lparr>Attributes := Attributes pool ++ storageAttrs\<rparr>))))"

definition getVserverAggregateAttributes ::
  "sa_pkg \<Rightarrow> aggr_api \<Rightarrow> (string \<rightharpoonup> Pool) \<Rightarrow>
   (api_error option \<times> (string \<rightharpoonup> Pool) \<times> log_entry list) api_return" where
  "getVserverAggregateAttributes sa client storagePools =
     (case VserverShowAggrGetIterRequest client of
        ApiPanic r \<Rightarrow> ApiPanic r
      | ApiReturn (Inl err) \<Rightarrow> ApiReturn (Some err, storagePools, [])
      | ApiReturn (Inr attributesList) \<Rightarrow>
          (let (pools, log) = update_pools sa attributesList storagePools
           in ApiReturn (None, pools, log)))"

definition getClusterAggregateAttributes ::
  "sa_pkg \<Rightarrow> aggr_api \<Rightarrow> (string \<rightharpoonup> Pool) \<Rightarrow>
   (api_error option \<times> (string \<rightharpoonup> Pool) \<times> log_entry list) api_return" where
  "getClusterAggregateAttributes sa client storagePools =
     (case AggrGetIterRequest client of
        ApiPanic r \<Rightarrow> ApiPanic r
      | ApiReturn (Inl err) \<Rightarrow> ApiReturn (Some err, storagePools, [])
      | ApiReturn (Inr attributesList) \<Rightarrow>
          (let (pools, log) = update_pools sa attributesList storagePools
           in ApiReturn (None, pools, log)))"

text \<open>
  The function returns the backend's pools as they stand at the return, its error
  (\<open>None\<close> is nil) and the log. \<open>storagePools\<close> is a Go map; its last loop, which
  ranges over the map, is a fold over the names the map was built from.
\<close>

definition getStorageBackendSpecsCommon ::
  "sa_pkg \<Rightarrow> aggr_api \<Rightarrow> OntapStorageDriverConfig \<Rightarrow> (string \<rightharpoonup> Pool) \<Rightarrow>
   (string \<rightharpoonup> Offer) \<Rightarrow> (string \<rightharpoonup> Pool) \<times> ontap_error option \<times> log_entry list" where
  "getStorageBackendSpecsCommon sa client config backend poolAttributes =
     (case GetVserverAggregateNames client of
        ApiPanic r \<Rightarrow> (backend, Some (ErrUnableToInspect r), [])
      | ApiReturn (Inl err) \<Rightarrow> (backend, Some (ErrApi err), [])
      | ApiReturn (Inr vserverAggrs) \<Rightarrow>
          if length vserverAggrs = 0
          then (backend, Some (ErrNoAssignedAggregates (SVM config)), [])
          else
            (let storagePools0 =
                   foldl (\<lambda>pools aggrName. pools(aggrName \<mapsto> NewStoragePool aggrName))
                     Map.empty vserverAggrs
             in if Aggregate config \<noteq> [] \<and> storagePools0 (Aggregate config) = None
                then (backend,
                      Some (ErrAggregateNotIncluded (SVM config) (Aggregate config)), [])
                else
                  (let storagePools =
                         (if Aggregate config \<noteq> []
                          then [Aggregate config \<mapsto> NewStoragePool (Aggregate config)]
                          else storagePools0)
                   in case (if SupportsFeature_VServerShowAggr client
                            then getVserverAggregateAttributes sa client storagePools
                            else getClusterAggregateAttributes sa client storagePools) of
                        ApiPanic r \<Rightarrow> (backend, Some (ErrUnableToInspect r), [])
                      | ApiReturn (aggrErr, pools1, log1) \<Rightarrow>
                          (let log2 =
                                 (case aggrErr of
                                    None \<Rightarrow> log1
                                  | Some (GoError err) \<Rightarrow>
                                      log1 @ [LogError ''Could not obtain aggregate info'']
                                  | Some (ZapiFailed zerr) \<Rightarrow>
                                      if IsScopeError client zerr
                                      then log1 @ [LogWarn ''User has insufficient privileges to obtain aggregate info.'']
                                      else log1 @ [LogError ''Could not obtain aggregate info'']);
                               poolNames =
                                 (if Aggregate config \<noteq> [] then [Aggregate config]
                                  else vserverAggrs)
                           in (foldl
                                 (\<lambda>backend name.
                                    case pools1 name of
                                      None \<Rightarrow> backend
                                    | Some pool \<Rightarrow>
                                        AddStoragePool backend
                                          (pool\<lparr>Attributes :=
                                                   Attributes pool ++ poolAttributes\<rparr>))
                                 backend poolNames,
                               None, log2)))))"

subsection \<open>Concrete inputs\<close>

text \<open>
  A backend configuration as a user would write it, with every optional field absent, and
  the values of package \<open>drivers\<close> it is resolved against. They are the inputs at which
  the theorems below are instantiated.
\<close>

definition example_env :: drivers_env where
  "example_env =
     \<lparr>DefaultVolumeSize = ''1G'', OntapNASStorageDriverName = ''ontap-nas'',
      GetDefaultStoragePrefix = (\<lambda>c. if c = ''docker'' then ''netappdvp_'' else ''trident_''),
      ConvertSizeToBytes =
        (\<lambda>s. if s = ''1G'' then (''1073741824'', None) else ([], Some ''invalid size value''))\<rparr>"

definition example_config :: OntapStorageDriverConfig where
  "example_config =
     \<lparr>StorageDriverName = ''ontap-nas'', DriverContext = ''docker'', StoragePrefix = None,
      ManagementLIF = ''10.0.0.1'', DataLIF = [], SVM = [], Username = ''admin'',
      Password = ''secret'', Aggregate = [], UsageHeartbeat = ''0'', Size = [],
      SpaceReserve = [], SnapshotPolicy = [], UnixPermissions = [], SnapshotDir = [],
      ExportPolicy = [], SecurityStyle = [], NfsMountOptions = [], SplitOnClone = [],
      FileSystemType = [], Encryption = []\<rparr>"

definition example_clone_api :: clone_api where
  "example_clone_api =
     \<lparr>VolumeExists = (\<lambda>name. Inr (name = ''pvc_existing'')),
      SnapshotCreate = (\<lambda>snapshot source. None),
      VolumeCloneCreate =
        (\<lambda>name source snapshot.
           if snapshot = ''missing''
           then Some (ZapiFailed \<lparr>code = ''15661'', reason = ''entry does not exist''\<rparr>)
           else if source = ''offline_vol''
           then Some (ZapiFailed \<lparr>code = ''13001'', reason = ''volume is offline''\<rparr>)
           else None),
      VolumeMount = (\<lambda>name junction. None),
      VolumeCloneSplitStart = (\<lambda>name. None),
      EOBJECTNOTFOUND = ''15661''\<rparr>"

text \<open>
  A management API with one load-sharing mirror per given status: call \<open>n\<close> lists the
  mirrors with the statuses \<open>statuses n\<close>, and every polling iteration takes five
  milliseconds beyond its sleep.
\<close>

definition example_mirror_api :: "(nat \<Rightarrow> string option list) \<Rightarrow> mirror_api" where
  "example_mirror_api statuses =
     \<lparr>VolumeGetRootName = Inr ''svm1_root'',
      SnapmirrorGetLoadSharingMirrors =
        (\<lambda>n rootVolume.
           Inr \<lparr>snapmirror_NumRecords = int (length (statuses n)),
                snapmirror_AttributesList =
                  map (\<lambda>s. \<lparr>SourceLocation = ''svm1:svm1_root'', RelationshipStatus = s\<rparr>)
                    (statuses n)\<rparr>),
      SnapmirrorUpdateLoadSharingMirrors = (\<lambda>sourceLocation. None),
      elapsed = (\<lambda>n. 5000000)\<rparr>"

text \<open>
  The strings of package \<open>sa\<close>, and a management API that assigns the given aggregates
  to the SVM, supports \<open>vserver-show-aggr-get-iter\<close> and answers it with the given reply.
\<close>

definition example_sa :: sa_pkg where
  "example_sa = \<lparr>Media = ''media'', HDD = ''hdd'', Hybrid = ''hybrid'', SSD = ''ssd''\<rparr>"

definition example_aggr_api ::
  "string list \<Rightarrow> api_error + (string \<times> string) list \<Rightarrow> aggr_api" where
  "example_aggr_api names lookup =
     \<lparr>GetVserverAggregateNames = ApiReturn (Inr names),
      SupportsFeature_VServerShowAggr = True,
      VserverShowAggrGetIterRequest = ApiReturn lookup,
      AggrGetIterRequest = ApiReturn (Inl (GoError ''connection refused'')),
      IsScopeError = (\<lambda>zerr. code zerr = ''13003'')\<rparr>"

section \<open>Verified properties\<close>

subsection \<open>Internal volume names\<close>

lemma Replace_single_removes:
  "c \<notin> set new \<Longrightarrow> c \<notin> set (Replace s [c] new)"
  by (induction s) auto

lemma Replace_set_subset:
  "set (Replace s (p # ps) new) \<subseteq> set s \<union> set new"
proof (induction s "p # ps" new rule: Replace.induct)
  case (2 new)
  then show ?case by simp
next
  case (3 c cs new)
  show ?case
  proof (cases "take (length ps) cs = ps \<and> c = p")
    case True
    with 3 have "set (Replace (drop (length ps) cs) (p # ps) new)
                 \<subseteq> set (drop (length ps) cs) \<union> set new"
      by simp
    moreover have "set (drop (length ps) cs) \<subseteq> set cs"
      by (rule set_drop_subset)
    ultimately show ?thesis using True by auto
  next
    case False
    with 3 show ?thesis by auto
  qed
qed

text \<open>
  C10. Outside passthrough mode the internal name is the common internal name with every
  hyphen, then every period, replaced by an underscore, and double underscores collapsed
  after that; it holds no hyphen and no period. In passthrough mode, with a configured
  storage prefix, the result is the prefix followed by the name as given.
\<close>

theorem getInternalVolumeNameCommon_no_hyphen_no_period:
  "(\<exists>r. getInternalVolumeNameCommon False g cfg name = Inr r
        \<and> r = Replace (Replace (Replace (g cfg name) ''-'' ''_'') ''.'' ''_'') ''__'' ''_''
        \<and> CHR ''-'' \<notin> set r \<and> CHR ''.'' \<notin> set r)
   \<and> (StoragePrefix cfg = Some prefix \<longrightarrow>
        getInternalVolumeNameCommon True g cfg name = Inr (prefix @ name))"
proof -
  define a where "a = Replace (g cfg name) ''-'' ''_''"
  define b where "b = Replace a ''.'' ''_''"
  define r where "r = Replace b ''__'' ''_''"
  have a: "CHR ''-'' \<notin> set a"
    unfolding a_def by (rule Replace_single_removes) simp
  have b1: "CHR ''.'' \<notin> set b"
    unfolding b_def by (rule Replace_single_removes) simp
  have "set b \<subseteq> set a \<union> set ''_''"
    unfolding b_def by (rule Replace_set_subset)
  with a have b2: "CHR ''-'' \<notin> set b" by auto
  have "set r \<subseteq> set b \<union> set ''_''"
    unfolding r_def by (rule Replace_set_subset)
  with b1 b2 have "CHR ''-'' \<notin> set r" "CHR ''.'' \<notin> set r" by auto
  moreover have "getInternalVolumeNameCommon False g cfg name = Inr r"
    by (simp add: getInternalVolumeNameCommon_def r_def b_def a_def)
  ultimately show ?thesis
    by (simp add: getInternalVolumeNameCommon_def r_def b_def a_def)
qed

theorem getInternalVolumeNameCommon_witness:
  "getInternalVolumeNameCommon False (\<lambda>c n. ''trident-'' @ n)
      \<lparr>StorageDriverName = ''ontap-nas'', DriverContext = ''docker'',
       StoragePrefix = Some ''trident_''\<rparr> ''my-vol.1__x''
     = Inr ''trident_my_vol_1_x''
   \<and> getInternalVolumeNameCommon True (\<lambda>c n. ''trident-'' @ n)
      \<lparr>StorageDriverName = ''ontap-nas'', DriverContext = ''docker'',
       StoragePrefix = Some ''trident_''\<rparr> ''my-vol.1__x''
     = Inr ''trident_my-vol.1__x''"
  using getInternalVolumeNameCommon_no_hyphen_no_period
    [of "\<lambda>c n. ''trident-'' @ n"
        "\<lparr>StorageDriverName = ''ontap-nas'', DriverContext = ''docker'',
          StoragePrefix = Some ''trident_''\<rparr>"
        "''my-vol.1__x''" "''trident_''"]
  by simp

subsection \<open>Volume sizes\<close>

text \<open>
  C8. A requested size other than zero and strictly below 20971520 bytes (20 MiB) is
  rejected; a request of exactly 20971520 bytes is accepted and returned as it is; a zero
  request is replaced by the parsed default size of the configuration, which then goes
  through the same floor check.
\<close>

theorem GetVolumeSize_floor:
  "(s \<noteq> 0 \<and> s < 20971520 \<longrightarrow>
      GetVolumeSize env s cfg = Inl (ErrVolumeTooSmall s 20971520))
   \<and> GetVolumeSize env 20971520 cfg = Inr 20971520
   \<and> GetVolumeSize env 0 cfg =
       (let d = fst (ParseUint (fst (ConvertSizeToBytes env (Size cfg))))
        in if d < 20971520 then Inl (ErrVolumeTooSmall d 20971520) else Inr d)"
  by (simp add: GetVolumeSize_def MinimumVolumeSizeBytes_def Let_def)

theorem GetVolumeSize_floor_witness:
  "GetVolumeSize example_env 20971519 (example_config\<lparr>Size := ''1G''\<rparr>)
     = Inl (ErrVolumeTooSmall 20971519 20971520)
   \<and> GetVolumeSize example_env 20971520 (example_config\<lparr>Size := ''1G''\<rparr>) = Inr 20971520
   \<and> GetVolumeSize example_env 0 (example_config\<lparr>Size := ''1G''\<rparr>) = Inr 1073741824"
  using GetVolumeSize_floor [of 20971519 example_env "example_config\<lparr>Size := ''1G''\<rparr>"]
  by (simp add: example_env_def example_config_def ParseUint_def is_digit_def maxUint64_def)

subsection \<open>Configuration defaults\<close>

lemma config_update_if:
  "\<And>b d (c::OntapStorageDriverConfig). (if b then c\<lparr>Size := d\<rparr> else c) = c\<lparr>Size := (if b then d else Size c)\<rparr>"
  "\<And>b d (c::OntapStorageDriverConfig). (if b then c\<lparr>StoragePrefix := d\<rparr> else c) = c\<lparr>StoragePrefix := (if b then d else StoragePrefix c)\<rparr>"
  "\<And>b d (c::OntapStorageDriverConfig). (if b then c\<lparr>SpaceReserve := d\<rparr> else c) = c\<lparr>SpaceReserve := (if b then d else SpaceReserve c)\<rparr>"
  "\<And>b d (c::OntapStorageDriverConfig). (if b then c\<lparr>SnapshotPolicy := d\<rparr> else c) = c\<lparr>SnapshotPolicy := (if b then d else SnapshotPolicy c)\<rparr>"
  "\<And>b d (c::OntapStorageDriverConfig). (if b then c\<lparr>UnixPermissions := d\<rparr> else c) = c\<lparr>UnixPermissions := (if b then d else UnixPermissions c)\<rparr>"
  "\<And>b d (c::OntapStorageDriverConfig). (if b then c\<lparr>SnapshotDir := d\<rparr> else c) = c\<lparr>SnapshotDir := (if b then d else SnapshotDir c)\<rparr>"
  "\<And>b d (c::OntapStorageDriverConfig). (if b then c\<lparr>ExportPolicy := d\<rparr> else c) = c\<lparr>ExportPolicy := (if b then d else ExportPolicy c)\<rparr>"
  "\<And>b d (c::OntapStorageDriverConfig). (if b then c\<lparr>SecurityStyle := d\<rparr> else c) = c\<lparr>SecurityStyle := (if b then d else SecurityStyle c)\<rparr>"
  "\<And>b d (c::OntapStorageDriverConfig). (if b then c\<lparr>NfsMountOptions := d\<rparr> else c) = c\<lparr>NfsMountOptions := (if b then d else NfsMountOptions c)\<rparr>"
  "\<And>b d (c::OntapStorageDriverConfig). (if b then c\<lparr>SplitOnClone := d\<rparr> else c) = c\<lparr>SplitOnClone := (if b then d else SplitOnClone c)\<rparr>"
  "\<And>b d (c::OntapStorageDriverConfig). (if b then c\<lparr>FileSystemType := d\<rparr> else c) = c\<lparr>FileSystemType := (if b then d else FileSystemType c)\<rparr>"
  "\<And>b d (c::OntapStorageDriverConfig). (if b then c\<lparr>Encryption := d\<rparr> else c) = c\<lparr>Encryption := (if b then d else Encryption c)\<rparr>"
  by simp_all

text \<open>
  The function in closed form: the two checks that can fail, and the configuration as it
  stands at each return.
\<close>

lemma PopulateConfigurationDefaults_unfold:
  "PopulateConfigurationDefaults env c =
     (case (if Size c = [] then None else snd (ConvertSizeToBytes env (Size c))) of
        Some err \<Rightarrow> (c\<lparr>Size := (if Size c = [] then DefaultVolumeSize env else Size c)\<rparr>, Some (ErrInvalidDefaultVolumeSize err))
      | None \<Rightarrow>
         if SplitOnClone c \<noteq> [] \<and> ParseBool (SplitOnClone c) = None
         then (c\<lparr>Size := (if Size c = [] then DefaultVolumeSize env else Size c),
                StoragePrefix := (if StoragePrefix c = None then Some (GetDefaultStoragePrefix env (DriverContext c)) else StoragePrefix c),
                SpaceReserve := (if SpaceReserve c = [] then DefaultSpaceReserve else SpaceReserve c),
                SnapshotPolicy := (if SnapshotPolicy c = [] then DefaultSnapshotPolicy else SnapshotPolicy c),
                UnixPermissions := (if UnixPermissions c = [] then DefaultUnixPermissions else UnixPermissions c),
                SnapshotDir := (if SnapshotDir c = [] then DefaultSnapshotDir else SnapshotDir c),
                ExportPolicy := (if ExportPolicy c = [] then DefaultExportPolicy else ExportPolicy c),
                SecurityStyle := (if SecurityStyle c = [] then DefaultSecurityStyle else SecurityStyle c),
                NfsMountOptions := (if NfsMountOptions c = [] then DefaultNfsMountOptions else NfsMountOptions c)\<rparr>,
               Some (ErrInvalidSplitOnClone (SplitOnClone c)))
         else (c\<lparr>Size := (if Size c = [] then DefaultVolumeSize env else Size c),
                StoragePrefix := (if StoragePrefix c = None then Some (GetDefaultStoragePrefix env (DriverContext c)) else StoragePrefix c),
                SpaceReserve := (if SpaceReserve c = [] then DefaultSpaceReserve else SpaceReserve c),
                SnapshotPolicy := (if SnapshotPolicy c = [] then DefaultSnapshotPolicy else SnapshotPolicy c),
                UnixPermissions := (if UnixPermissions c = [] then DefaultUnixPermissions else UnixPermissions c),
                SnapshotDir := (if SnapshotDir c = [] then DefaultSnapshotDir else SnapshotDir c),
                ExportPolicy := (if ExportPolicy c = [] then DefaultExportPolicy else ExportPolicy c),
                SecurityStyle := (if SecurityStyle c = [] then DefaultSecurityStyle else SecurityStyle c),
                NfsMountOptions := (if NfsMountOptions c = [] then DefaultNfsMountOptions else NfsMountOptions c),
                SplitOnClone := (if SplitOnClone c = [] then DefaultSplitOnClone else SplitOnClone c),
                FileSystemType := (if FileSystemType c = [] then DefaultFileSystemType else FileSystemType c),
                Encryption := (if Encryption c = [] then DefaultEncryption else Encryption c)\<rparr>, None))"
  unfolding PopulateConfigurationDefaults_def
  by (simp add: Let_def config_update_if split del: if_split cong: let_weak_cong if_cong option.case_cong)


text \<open>
  C9. For every configuration on which PopulateConfigurationDefaults succeeds, each optional
  field that was absent holds its documented default afterwards and each field that was
  supplied is kept: the default size and the storage prefix come from package drivers,
  space reserve "none", snapshot policy "none", unix permissions "---rwxrwxrwx", snapshot
  dir "false", export policy "default", security style "unix", NFS mount options
  "-o nfsvers=3", split on clone "false", file system type "ext4", encryption "false".
  Applied again to its own result, the function succeeds and leaves it unchanged, given
  that the size converter of package utils accepts the default size of package drivers.
\<close>

theorem PopulateConfigurationDefaults_defaults_idempotent:
  assumes ok: "PopulateConfigurationDefaults env c = (c', None)"
  shows "Size c' = (if Size c = [] then DefaultVolumeSize env else Size c)
       \<and> StoragePrefix c' = (case StoragePrefix c of
                               None \<Rightarrow> Some (GetDefaultStoragePrefix env (DriverContext c))
                             | Some p \<Rightarrow> Some p)
       \<and> SpaceReserve c' = (if SpaceReserve c = [] then ''none'' else SpaceReserve c)
       \<and> SnapshotPolicy c' = (if SnapshotPolicy c = [] then ''none'' else SnapshotPolicy c)
       \<and> UnixPermissions c' =
           (if UnixPermissions c = [] then ''---rwxrwxrwx'' else UnixPermissions c)
       \<and> SnapshotDir c' = (if SnapshotDir c = [] then ''false'' else SnapshotDir c)
       \<and> ExportPolicy c' = (if ExportPolicy c = [] then ''default'' else ExportPolicy c)
       \<and> SecurityStyle c' = (if SecurityStyle c = [] then ''unix'' else SecurityStyle c)
       \<and> NfsMountOptions c' =
           (if NfsMountOptions c = [] then ''-o nfsvers=3'' else NfsMountOptions c)
       \<and> SplitOnClone c' = (if SplitOnClone c = [] then ''false'' else SplitOnClone c)
       \<and> FileSystemType c' = (if FileSystemType c = [] then ''ext4'' else FileSystemType c)
       \<and> Encryption c' = (if Encryption c = [] then ''false'' else Encryption c)
       \<and> (snd (ConvertSizeToBytes env (DefaultVolumeSize env)) = None \<longrightarrow>
            PopulateConfigurationDefaults env c' = (c', None))"
proof -
  have A: "\<And>P x e r. ((if P then (x, Some e) else r) = (c', None)) = (\<not> P \<and> r = (c', None))"
    by auto
  have B: "\<And>s f x r. ((case s of None \<Rightarrow> r | Some err \<Rightarrow> (x, Some (f err))) = (c', None))
                       = (s = None \<and> r = (c', None))"
    by (auto split: option.splits)
  from ok have valid:
    "(if Size c = [] then None else snd (ConvertSizeToBytes env (Size c))) = None"
    "\<not> (SplitOnClone c \<noteq> [] \<and> ParseBool (SplitOnClone c) = None)"
    and c': "c' = c\<lparr>Size := (if Size c = [] then DefaultVolumeSize env else Size c),
                StoragePrefix := (if StoragePrefix c = None then Some (GetDefaultStoragePrefix env (DriverContext c)) else StoragePrefix c),
                SpaceReserve := (if SpaceReserve c = [] then DefaultSpaceReserve else SpaceReserve c),
                SnapshotPolicy := (if SnapshotPolicy c = [] then DefaultSnapshotPolicy else SnapshotPolicy c),
                UnixPermissions := (if UnixPermissions c = [] then DefaultUnixPermissions else UnixPermissions c),
                SnapshotDir := (if SnapshotDir c = [] then DefaultSnapshotDir else SnapshotDir c),
                ExportPolicy := (if ExportPolicy c = [] then DefaultExportPolicy else ExportPolicy c),
                SecurityStyle := (if SecurityStyle c = [] then DefaultSecurityStyle else SecurityStyle c),
                NfsMountOptions := (if NfsMountOptions c = [] then DefaultNfsMountOptions else NfsMountOptions c),
                SplitOnClone := (if SplitOnClone c = [] then DefaultSplitOnClone else SplitOnClone c),
                FileSystemType := (if FileSystemType c = [] then DefaultFileSystemType else FileSystemType c),
                Encryption := (if Encryption c = [] then DefaultEncryption else Encryption c)\<rparr>"
    unfolding PopulateConfigurationDefaults_unfold A B by simp_all
  have f_size: "Size c' = (if Size c = [] then DefaultVolumeSize env else Size c)"
    and f_prefix: "StoragePrefix c' = (if StoragePrefix c = None then Some (GetDefaultStoragePrefix env (DriverContext c)) else StoragePrefix c)"
    and f_space: "SpaceReserve c' = (if SpaceReserve c = [] then ''none'' else SpaceReserve c)"
    and f_policy: "SnapshotPolicy c' = (if SnapshotPolicy c = [] then ''none'' else SnapshotPolicy c)"
    and f_perm: "UnixPermissions c' = (if UnixPermissions c = [] then ''---rwxrwxrwx'' else UnixPermissions c)"
    and f_dir: "SnapshotDir c' = (if SnapshotDir c = [] then ''false'' else SnapshotDir c)"
    and f_export: "ExportPolicy c' = (if ExportPolicy c = [] then ''default'' else ExportPolicy c)"
    and f_style: "SecurityStyle c' = (if SecurityStyle c = [] then ''unix'' else SecurityStyle c)"
    and f_nfs: "NfsMountOptions c' = (if NfsMountOptions c = [] then ''-o nfsvers=3'' else NfsMountOptions c)"
    and f_split: "SplitOnClone c' = (if SplitOnClone c = [] then ''false'' else SplitOnClone c)"
    and f_fs: "FileSystemType c' = (if FileSystemType c = [] then ''ext4'' else FileSystemType c)"
    and f_enc: "Encryption c' = (if Encryption c = [] then ''false'' else Encryption c)"
    unfolding c'
    by (simp_all add: DefaultSpaceReserve_def DefaultSnapshotPolicy_def
        DefaultUnixPermissions_def DefaultSnapshotDir_def DefaultExportPolicy_def
        DefaultSecurityStyle_def DefaultNfsMountOptions_def DefaultSplitOnClone_def
        DefaultFileSystemType_def DefaultEncryption_def split del: if_split cong: if_cong)
  have again: "PopulateConfigurationDefaults env c' = (c', None)"
    if conv: "snd (ConvertSizeToBytes env (DefaultVolumeSize env)) = None"
  proof -
    have s1: "(if Size c' = [] then None else snd (ConvertSizeToBytes env (Size c'))) = None"
      using valid(1) conv by (simp add: f_size split: if_splits)
    have s2: "\<not> (SplitOnClone c' \<noteq> [] \<and> ParseBool (SplitOnClone c') = None)"
    proof (cases "SplitOnClone c = []")
      case True
      then show ?thesis by (simp add: f_split ParseBool_def)
    next
      case False
      with valid(2) show ?thesis by (simp add: f_split)
    qed
    have n: "(if Size c' = [] then DefaultVolumeSize env else Size c') = Size c'"
      "(if StoragePrefix c' = None then Some (GetDefaultStoragePrefix env (DriverContext c')) else StoragePrefix c') = StoragePrefix c'"
      "(if SpaceReserve c' = [] then DefaultSpaceReserve else SpaceReserve c') = SpaceReserve c'"
      "(if SnapshotPolicy c' = [] then DefaultSnapshotPolicy else SnapshotPolicy c') = SnapshotPolicy c'"
      "(if UnixPermissions c' = [] then DefaultUnixPermissions else UnixPermissions c') = UnixPermissions c'"
      "(if SnapshotDir c' = [] then DefaultSnapshotDir else SnapshotDir c') = SnapshotDir c'"
      "(if ExportPolicy c' = [] then DefaultExportPolicy else ExportPolicy c') = ExportPolicy c'"
      "(if SecurityStyle c' = [] then DefaultSecurityStyle else SecurityStyle c') = SecurityStyle c'"
      "(if NfsMountOptions c' = [] then DefaultNfsMountOptions else NfsMountOptions c') = NfsMountOptions c'"
      "(if SplitOnClone c' = [] then DefaultSplitOnClone else SplitOnClone c') = SplitOnClone c'"
      "(if FileSystemType c' = [] then DefaultFileSystemType else FileSystemType c') = FileSystemType c'"
      "(if Encryption c' = [] then DefaultEncryption else Encryption c') = Encryption c'"
      by (simp_all add: f_size f_prefix f_space f_policy f_perm f_dir f_export f_style f_nfs
          f_split f_fs f_enc)
    show ?thesis
      unfolding PopulateConfigurationDefaults_unfold [of env c'] s1 n using s2 by simp
  qed
  show ?thesis
    using f_size f_prefix f_space f_policy f_perm f_dir f_export f_style f_nfs f_split f_fs
      f_enc again
    by (simp split: option.splits)
qed

theorem PopulateConfigurationDefaults_witness:
  "PopulateConfigurationDefaults example_env example_config =
     (example_config\<lparr>Size := ''1G'', StoragePrefix := Some ''netappdvp_'',
        SpaceReserve := ''none'', SnapshotPolicy := ''none'',
        UnixPermissions := ''---rwxrwxrwx'', SnapshotDir := ''false'',
        ExportPolicy := ''default'', SecurityStyle := ''unix'',
        NfsMountOptions := ''-o nfsvers=3'', SplitOnClone := ''false'',
        FileSystemType := ''ext4'', Encryption := ''false''\<rparr>, None)
   \<and> PopulateConfigurationDefaults example_env
       (example_config\<lparr>Size := ''1G'', StoragePrefix := Some ''netappdvp_'',
        SpaceReserve := ''none'', SnapshotPolicy := ''none'',
        UnixPermissions := ''---rwxrwxrwx'', SnapshotDir := ''false'',
        ExportPolicy := ''default'', SecurityStyle := ''unix'',
        NfsMountOptions := ''-o nfsvers=3'', SplitOnClone := ''false'',
        FileSystemType := ''ext4'', Encryption := ''false''\<rparr>) =
     (example_config\<lparr>Size := ''1G'', StoragePrefix := Some ''netappdvp_'',
        SpaceReserve := ''none'', SnapshotPolicy := ''none'',
        UnixPermissions := ''---rwxrwxrwx'', SnapshotDir := ''false'',
        ExportPolicy := ''default'', SecurityStyle := ''unix'',
        NfsMountOptions := ''-o nfsvers=3'', SplitOnClone := ''false'',
        FileSystemType := ''ext4'', Encryption := ''false''\<rparr>, None)"
proof -
  have run: "PopulateConfigurationDefaults example_env example_config =
     (example_config\<lparr>Size := ''1G'', StoragePrefix := Some ''netappdvp_'',
        SpaceReserve := ''none'', SnapshotPolicy := ''none'',
        UnixPermissions := ''---rwxrwxrwx'', SnapshotDir := ''false'',
        ExportPolicy := ''default'', SecurityStyle := ''unix'',
        NfsMountOptions := ''-o nfsvers=3'', SplitOnClone := ''false'',
        FileSystemType := ''ext4'', Encryption := ''false''\<rparr>, None)"
    unfolding PopulateConfigurationDefaults_def
    by (simp add: Let_def example_env_def example_config_def DefaultSpaceReserve_def
        DefaultSnapshotPolicy_def DefaultUnixPermissions_def DefaultSnapshotDir_def
        DefaultExportPolicy_def DefaultSecurityStyle_def DefaultNfsMountOptions_def
        DefaultSplitOnClone_def DefaultFileSystemType_def DefaultEncryption_def
        cong: let_weak_cong)
  have conv: "snd (ConvertSizeToBytes example_env (DefaultVolumeSize example_env)) = None"
    by (simp add: example_env_def)
  from PopulateConfigurationDefaults_defaults_idempotent [OF run]
  have "snd (ConvertSizeToBytes example_env (DefaultVolumeSize example_env)) = None \<longrightarrow>
        PopulateConfigurationDefaults example_env
          (example_config\<lparr>Size := ''1G'', StoragePrefix := Some ''netappdvp_'',
             SpaceReserve := ''none'', SnapshotPolicy := ''none'',
             UnixPermissions := ''---rwxrwxrwx'', SnapshotDir := ''false'',
             ExportPolicy := ''default'', SecurityStyle := ''unix'',
             NfsMountOptions := ''-o nfsvers=3'', SplitOnClone := ''false'',
             FileSystemType := ''ext4'', Encryption := ''false''\<rparr>) =
        (example_config\<lparr>Size := ''1G'', StoragePrefix := Some ''netappdvp_'',
             SpaceReserve := ''none'', SnapshotPolicy := ''none'',
             UnixPermissions := ''---rwxrwxrwx'', SnapshotDir := ''false'',
             ExportPolicy := ''default'', SecurityStyle := ''unix'',
             NfsMountOptions := ''-o nfsvers=3'', SplitOnClone := ''false'',
             FileSystemType := ''ext4'', Encryption := ''false''\<rparr>, None)"
    by (elim conjE)
  with conv run show ?thesis by (intro conjI) (rule run, rule mp)
qed

subsection \<open>Deriving the SVM\<close>

text \<open>
  C1 as stated fails: with no SVM configured, a reply with zero records and a reply with two
  records make InitializeOntapAPI fail with one and the same error ("cannot derive SVM to
  use; please specify SVM in config file"), so the two cases cannot be told apart.
\<close>

theorem InitializeOntapAPI_one_error_kind_counterexample:
  "snd (InitializeOntapAPI
          (\<lambda>client. Inr \<lparr>vserver_NumRecords = 0, vserver_AttributesList = []\<rparr>)
          example_config)
   = snd (InitializeOntapAPI
          (\<lambda>client. Inr \<lparr>vserver_NumRecords = 2,
                          vserver_AttributesList = [''svm1'', ''svm2'']\<rparr>)
          example_config)
   \<and> snd (InitializeOntapAPI
          (\<lambda>client. Inr \<lparr>vserver_NumRecords = 0, vserver_AttributesList = []\<rparr>)
          example_config) = Inl ErrCannotDeriveSVM"
  by (simp add: InitializeOntapAPI_def example_config_def Let_def)

text \<open>
  C1, amended. With no SVM configured and a reply to the SVM enumeration that passed: when
  the reply reports exactly one record, initialization adopts the first listed SVM,
  stores it in the configuration and returns a new client built for it; when the reply
  reports any other number of records, zero as well as two or more, initialization fails
  with the single error "cannot derive SVM" and leaves the configuration as it was.
\<close>

theorem InitializeOntapAPI_derives_SVM:
  assumes "SVM config = []" and "VserverGetIterRequest (NewClient config) = Inr r"
  shows "(vserver_NumRecords r = 1 \<and> vserver_AttributesList r = name # rest \<longrightarrow>
            InitializeOntapAPI VserverGetIterRequest config =
              (config\<lparr>SVM := name\<rparr>, Inr (NewClient (config\<lparr>SVM := name\<rparr>)))
            \<and> client_SVM (NewClient (config\<lparr>SVM := name\<rparr>)) = name)
       \<and> (vserver_NumRecords r \<noteq> 1 \<longrightarrow>
            InitializeOntapAPI VserverGetIterRequest config = (config, Inl ErrCannotDeriveSVM))"
  using assms by (simp add: InitializeOntapAPI_def Let_def NewClient_def)

theorem InitializeOntapAPI_derives_SVM_witness:
  "InitializeOntapAPI
     (\<lambda>client. Inr \<lparr>vserver_NumRecords = 1, vserver_AttributesList = [''svm1'']\<rparr>)
     example_config
   = (example_config\<lparr>SVM := ''svm1''\<rparr>, Inr (NewClient (example_config\<lparr>SVM := ''svm1''\<rparr>)))
   \<and> InitializeOntapAPI
     (\<lambda>client. Inr \<lparr>vserver_NumRecords = 3,
                     vserver_AttributesList = [''svm1'', ''svm2'', ''svm3'']\<rparr>)
     example_config
   = (example_config, Inl ErrCannotDeriveSVM)"
  using InitializeOntapAPI_derives_SVM
      [of example_config
          "\<lambda>client. Inr \<lparr>vserver_NumRecords = 1, vserver_AttributesList = [''svm1'']\<rparr>"
          "\<lparr>vserver_NumRecords = 1, vserver_AttributesList = [''svm1'']\<rparr>" "''svm1''" "[]"]
    InitializeOntapAPI_derives_SVM
      [of example_config
          "\<lambda>client. Inr \<lparr>vserver_NumRecords = 3,
                          vserver_AttributesList = [''svm1'', ''svm2'', ''svm3'']\<rparr>"
          "\<lparr>vserver_NumRecords = 3, vserver_AttributesList = [''svm1'', ''svm2'', ''svm3'']\<rparr>"]
  by (simp add: example_config_def)

subsection \<open>Clone workflow\<close>

text \<open>
  C4. When the target volume name already exists, CreateOntapClone fails with the
  "already exists" error after a single remote call, the existence query: no snapshot is
  created, no clone is created, nothing is mounted and no split is started.
\<close>

theorem CreateOntapClone_existing_target:
  "VolumeExists client name = Inr True \<Longrightarrow>
   CreateOntapClone name source snapshot split config env client now =
     (Some (ErrVolumeAlreadyExists name), [CallVolumeExists name])"
  by (simp add: CreateOntapClone_def)

theorem CreateOntapClone_existing_target_witness:
  "VolumeExists example_clone_api ''pvc_existing'' = Inr True
   \<and> CreateOntapClone ''pvc_existing'' ''pvc_src'' [] True example_config example_env
        example_clone_api ''20181105T120000Z''
     = (Some (ErrVolumeAlreadyExists ''pvc_existing''), [CallVolumeExists ''pvc_existing''])"
  using CreateOntapClone_existing_target
      [of example_clone_api "''pvc_existing''" "''pvc_src''" "[]" True example_config
          example_env "''20181105T120000Z''"]
  by (simp add: example_clone_api_def)

text \<open>
  C5. When the workflow reaches clone creation (the target does not exist and, if no
  snapshot was named, the snapshot was created): a reply that did not pass and carries the
  code EOBJECTNOTFOUND is reported as "snapshot does not exist", naming the chosen snapshot
  and the source volume; every other failure of the call, a Go error or a reply with
  another code, is reported as "error creating clone" around that failure.
\<close>

theorem CreateOntapClone_clone_step_errors:
  assumes "VolumeExists client name = Inr False"
    and "snapshot0 = [] \<longrightarrow> SnapshotCreate client now source = None"
    and "snapshot = (if snapshot0 = [] then now else snapshot0)"
  shows "(VolumeCloneCreate client name source snapshot = Some (ZapiFailed zerr)
            \<and> code zerr = EOBJECTNOTFOUND client \<longrightarrow>
          fst (CreateOntapClone name source snapshot0 split config env client now) =
            Some (ErrSnapshotDoesNotExist snapshot source))
       \<and> (VolumeCloneCreate client name source snapshot = Some e
            \<and> (\<forall>z. e = ZapiFailed z \<longrightarrow> code z \<noteq> EOBJECTNOTFOUND client) \<longrightarrow>
          fst (CreateOntapClone name source snapshot0 split config env client now) =
            Some (ErrCreatingClone e))"
  using assms
  by (cases e) (auto simp: CreateOntapClone_def Let_def)

theorem CreateOntapClone_clone_step_errors_witness:
  "fst (CreateOntapClone ''pvc_new'' ''pvc_src'' ''missing'' False example_config example_env
          example_clone_api ''20181105T120000Z'')
     = Some (ErrSnapshotDoesNotExist ''missing'' ''pvc_src'')
   \<and> fst (CreateOntapClone ''pvc_new'' ''offline_vol'' [] False example_config example_env
          example_clone_api ''20181105T120000Z'')
     = Some (ErrCreatingClone (ZapiFailed \<lparr>code = ''13001'', reason = ''volume is offline''\<rparr>))"
  using CreateOntapClone_clone_step_errors
      [of example_clone_api "''pvc_new''" "''missing''" "''20181105T120000Z''" "''pvc_src''"
          "''missing''" "\<lparr>code = ''15661'', reason = ''entry does not exist''\<rparr>" False
          example_config example_env]
    CreateOntapClone_clone_step_errors
      [of example_clone_api "''pvc_new''" "[]" "''20181105T120000Z''" "''offline_vol''"
          "''20181105T120000Z''" _ False example_config example_env
          "ZapiFailed \<lparr>code = ''13001'', reason = ''volume is offline''\<rparr>"]
  by (simp add: example_clone_api_def)

subsection \<open>Telemetry\<close>

text \<open>
  A telemetry object built with a duration of zero or less has no ticker, and the goroutine
  of Start, on such an object, panics on entering its select.
\<close>

lemma Start_nil_ticker:
  "ticker t = None \<Longrightarrow>
   Start t schedule = ([Sleep HousekeepingStartupDelaySecs, EMSHeartbeat], TaskPanicked)"
  by (simp add: Start_def)

lemma NewOntapTelemetry_no_ticker:
  "durationInHours \<le> 0 \<Longrightarrow> NewOntapTelemetry driverName config durationInHours = Inr t \<Longrightarrow>
   ticker t = None"
  by (auto simp: NewOntapTelemetry_def Let_def split: option.splits)

text \<open>
  C2. The claim is that a telemetry object with a zero or negative interval, once started,
  sends the first heartbeat and then runs until it is stopped. At the interval 0 the
  constructor leaves the ticker nil; Start sleeps ten seconds, sends the first heartbeat
  and then panics with a nil dereference when the select evaluates the ticker's channel,
  although the stop signal is ready. Stop, on the same object, skips the nil ticker and
  closes the channel. With a ticker the same schedule ends in a return.
\<close>

theorem Start_without_ticker_panics:
  "NewOntapTelemetry ''ontap-nas'' (example_config\<lparr>StoragePrefix := Some ''trident_''\<rparr>) 0
     = Inr \<lparr>Plugin = ''ontap-nas'', telemetry_SVM = [], telemetry_StoragePrefix = ''trident_'',
            ticker = None\<rparr>
   \<and> Start \<lparr>Plugin = ''ontap-nas'', telemetry_SVM = [], telemetry_StoragePrefix = ''trident_'',
            ticker = None\<rparr> [DoneClosed]
     = ([Sleep 10, EMSHeartbeat], TaskPanicked)
   \<and> Stop \<lparr>Plugin = ''ontap-nas'', telemetry_SVM = [], telemetry_StoragePrefix = ''trident_'',
            ticker = None\<rparr>
     = [CloseDone]
   \<and> Start \<lparr>Plugin = ''ontap-nas'', telemetry_SVM = [], telemetry_StoragePrefix = ''trident_'',
            ticker = Some 86400000000000\<rparr> [DoneClosed]
     = ([Sleep 10, EMSHeartbeat], TaskReturned)"
  by (simp add: NewOntapTelemetry_def example_config_def Start_def Stop_def
      HousekeepingStartupDelaySecs_def)

subsection \<open>Waiting for load-sharing mirrors\<close>

text \<open>
  While the mirrors are listed and never all idle, the loop gives up, and only in the first
  iteration whose clock reading is past the timeout.
\<close>

lemma poll_mirrors_never_idle:
  assumes "\<forall>k\<ge>n. \<exists>r. SnapmirrorGetLoadSharingMirrors client k rootVolume = Inr r
                    \<and> snapmirror_NumRecords r \<noteq> 0
                    \<and> \<not> list_all (\<lambda>mirror. RelationshipStatus mirror = Some ''idle'')
                          (snapmirror_AttributesList r)"
    and "now \<le> timeout"
  shows "\<exists>m t. poll_mirrors client rootVolume timeout now n = (GivingUp, m, t)
               \<and> n \<le> m \<and> timeout < t
               \<and> t - (Second + elapsed client m) \<le> timeout
               \<and> now + (m - n) * Second \<le> t - (Second + elapsed client m)"
  using assms
proof (induction client rootVolume timeout now n rule: poll_mirrors.induct)
  case (1 client rootVolume timeout now n)
  let ?now' = "now + Second + elapsed client n"
  from "1.prems"(1) obtain r where
    r: "SnapmirrorGetLoadSharingMirrors client n rootVolume = Inr r"
       "snapmirror_NumRecords r \<noteq> 0"
       "\<not> list_all (\<lambda>mirror. RelationshipStatus mirror = Some ''idle'')
            (snapmirror_AttributesList r)"
    by blast
  show ?case
  proof (cases "timeout < ?now'")
    case True
    with r "1.prems"(2) show ?thesis
      by (subst poll_mirrors.simps) (simp add: Let_def)
  next
    case False
    have later: "\<forall>k\<ge>n + 1. \<exists>r. SnapmirrorGetLoadSharingMirrors client k rootVolume = Inr r
                    \<and> snapmirror_NumRecords r \<noteq> 0
                    \<and> \<not> list_all (\<lambda>mirror. RelationshipStatus mirror = Some ''idle'')
                          (snapmirror_AttributesList r)"
      using "1.prems"(1) by auto
    from False have le: "?now' \<le> timeout" by simp
    from "1.IH" [OF refl r(1) r(2) r(3) False later le]
    obtain m t where
      mt: "poll_mirrors client rootVolume timeout ?now' (n + 1) = (GivingUp, m, t)"
          "n + 1 \<le> m" "timeout < t" "t - (Second + elapsed client m) \<le> timeout"
          "?now' + (m - (n + 1)) * Second \<le> t - (Second + elapsed client m)"
      by blast
    have eq: "poll_mirrors client rootVolume timeout now n = (GivingUp, m, t)"
      using r False mt(1) by (subst poll_mirrors.simps) (simp add: Let_def)
    have "now + (m - n) * Second \<le> ?now' + (m - (n + 1)) * Second"
    proof -
      from mt(2) have "m - n = Suc (m - (n + 1))" by simp
      then show ?thesis by simp
    qed
    with mt eq show ?thesis by (intro exI [of _ m] exI [of _ t]) simp
  qed
qed

text \<open>
  C7. With the root volume resolved and the first listing of its load-sharing mirrors
  answered: if the listing reports no mirror, the function returns at once, without a
  polling iteration. If there are mirrors and the update is accepted, then: when the first
  poll, taken within the timeout, shows a mirror that is not idle and the second poll shows
  all mirrors idle, the function returns after exactly two polling iterations; when every
  poll shows a mirror that is not idle, the function still returns, in the first iteration
  whose clock reading is more than 30 seconds after the start of waiting, which is the
  31st at the latest. In each case the function returns normally.
\<close>

theorem UpdateLoadSharingMirrors_waits:
  assumes root: "VolumeGetRootName client = Inr rootVolume"
    and first: "SnapmirrorGetLoadSharingMirrors client 0 rootVolume = Inr r0"
  shows
    "(snapmirror_NumRecords r0 = 0 \<longrightarrow> UpdateLoadSharingMirrors client = Inr (NoMirrors, 0, 0))
     \<and> (snapmirror_NumRecords r0 \<noteq> 0 \<and> snapmirror_AttributesList r0 = mirror # rest
          \<and> SnapmirrorUpdateLoadSharingMirrors client (SourceLocation mirror) = None \<longrightarrow>
         (SnapmirrorGetLoadSharingMirrors client 1 rootVolume = Inr r1
            \<and> snapmirror_NumRecords r1 \<noteq> 0
            \<and> \<not> list_all (\<lambda>mirror. RelationshipStatus mirror = Some ''idle'')
                  (snapmirror_AttributesList r1)
            \<and> Second + elapsed client 1 \<le> 30 * Second
            \<and> SnapmirrorGetLoadSharingMirrors client 2 rootVolume = Inr r2
            \<and> snapmirror_NumRecords r2 \<noteq> 0
            \<and> list_all (\<lambda>mirror. RelationshipStatus mirror = Some ''idle'')
                  (snapmirror_AttributesList r2) \<longrightarrow>
          UpdateLoadSharingMirrors client =
            Inr (MirrorsIdle, 2, 2 * Second + elapsed client 1 + elapsed client 2))
         \<and> ((\<forall>k\<ge>1. \<exists>r. SnapmirrorGetLoadSharingMirrors client k rootVolume = Inr r
                    \<and> snapmirror_NumRecords r \<noteq> 0
                    \<and> \<not> list_all (\<lambda>mirror. RelationshipStatus mirror = Some ''idle'')
                          (snapmirror_AttributesList r)) \<longrightarrow>
            (\<exists>m t. UpdateLoadSharingMirrors client = Inr (GivingUp, m, t)
                   \<and> 1 \<le> m \<and> m \<le> 31 \<and> 30 * Second < t
                   \<and> t - (Second + elapsed client m) \<le> 30 * Second)))"
proof (intro conjI impI)
  assume "snapmirror_NumRecords r0 = 0"
  with root first show "UpdateLoadSharingMirrors client = Inr (NoMirrors, 0, 0)"
    by (simp add: UpdateLoadSharingMirrors_def)
next
  assume up: "snapmirror_NumRecords r0 \<noteq> 0 \<and> snapmirror_AttributesList r0 = mirror # rest
          \<and> SnapmirrorUpdateLoadSharingMirrors client (SourceLocation mirror) = None"
  assume two: "SnapmirrorGetLoadSharingMirrors client 1 rootVolume = Inr r1
            \<and> snapmirror_NumRecords r1 \<noteq> 0
            \<and> \<not> list_all (\<lambda>mirror. RelationshipStatus mirror = Some ''idle'')
                  (snapmirror_AttributesList r1)
            \<and> Second + elapsed client 1 \<le> 30 * Second
            \<and> SnapmirrorGetLoadSharingMirrors client 2 rootVolume = Inr r2
            \<and> snapmirror_NumRecords r2 \<noteq> 0
            \<and> list_all (\<lambda>mirror. RelationshipStatus mirror = Some ''idle'')
                  (snapmirror_AttributesList r2)"
  have run: "UpdateLoadSharingMirrors client =
               Inr (poll_mirrors client rootVolume (30 * Second) 0 1)"
    using root first up by (simp add: UpdateLoadSharingMirrors_def LSMirrorIdleTimeoutSecs_def)
  have p2: "poll_mirrors client rootVolume (30 * Second) (Second + elapsed client 1) 2 =
              (MirrorsIdle, 2, 2 * Second + elapsed client 1 + elapsed client 2)"
    using two by (subst poll_mirrors.simps) (simp add: Let_def)
  have "poll_mirrors client rootVolume (30 * Second) 0 1 =
          poll_mirrors client rootVolume (30 * Second) (Second + elapsed client 1) 2"
    using two by (subst poll_mirrors.simps) (simp add: Let_def numeral_2_eq_2)
  with run p2
  show "UpdateLoadSharingMirrors client =
          Inr (MirrorsIdle, 2, 2 * Second + elapsed client 1 + elapsed client 2)"
    by simp
next
  assume up: "snapmirror_NumRecords r0 \<noteq> 0 \<and> snapmirror_AttributesList r0 = mirror # rest
          \<and> SnapmirrorUpdateLoadSharingMirrors client (SourceLocation mirror) = None"
  assume never: "\<forall>k\<ge>1. \<exists>r. SnapmirrorGetLoadSharingMirrors client k rootVolume = Inr r
                    \<and> snapmirror_NumRecords r \<noteq> 0
                    \<and> \<not> list_all (\<lambda>mirror. RelationshipStatus mirror = Some ''idle'')
                          (snapmirror_AttributesList r)"
  have run: "UpdateLoadSharingMirrors client =
               Inr (poll_mirrors client rootVolume (30 * Second) 0 1)"
    using root first up by (simp add: UpdateLoadSharingMirrors_def LSMirrorIdleTimeoutSecs_def)
  from poll_mirrors_never_idle [OF never, of 0 "30 * Second"]
  obtain m t where
    mt: "poll_mirrors client rootVolume (30 * Second) 0 1 = (GivingUp, m, t)"
        "1 \<le> m" "30 * Second < t" "t - (Second + elapsed client m) \<le> 30 * Second"
        "0 + (m - 1) * Second \<le> t - (Second + elapsed client m)"
    by auto
  from mt(4,5) have "(m - 1) * Second \<le> 30 * Second" by linarith
  then have "m - 1 \<le> 30" unfolding Second_def by simp
  then have "m \<le> 31" by simp
  with run mt
  show "\<exists>m t. UpdateLoadSharingMirrors client = Inr (GivingUp, m, t)
                   \<and> 1 \<le> m \<and> m \<le> 31 \<and> 30 * Second < t
                   \<and> t - (Second + elapsed client m) \<le> 30 * Second"
    by (intro exI [of _ m] exI [of _ t]) simp
qed


theorem UpdateLoadSharingMirrors_waits_witness:
  "UpdateLoadSharingMirrors (example_mirror_api (\<lambda>n. [])) = Inr (NoMirrors, 0, 0)
   \<and> UpdateLoadSharingMirrors
        (example_mirror_api
           (\<lambda>n. if n < 2 then [Some ''transferring'', Some ''idle'']
                else [Some ''idle'', Some ''idle'']))
       = Inr (MirrorsIdle, 2, 2010000000)
   \<and> (\<exists>m t. UpdateLoadSharingMirrors
                (example_mirror_api (\<lambda>n. [Some ''transferring'', None]))
              = Inr (GivingUp, m, t)
            \<and> 1 \<le> m \<and> m \<le> 31 \<and> 30 * Second < t
            \<and> t - (Second + 5000000) \<le> 30 * Second)
   \<and> UpdateLoadSharingMirrors (example_mirror_api (\<lambda>n. [Some ''transferring'', None]))
       = Inr (GivingUp, 30, 30150000000)"
proof (intro conjI)
  show "UpdateLoadSharingMirrors (example_mirror_api (\<lambda>n. [])) = Inr (NoMirrors, 0, 0)"
    using UpdateLoadSharingMirrors_waits
      [where client = "example_mirror_api (\<lambda>n. [])" and rootVolume = "''svm1_root''"
         and ?r0.0 = "\<lparr>snapmirror_NumRecords = 0, snapmirror_AttributesList = []\<rparr>"]
    by (simp add: example_mirror_api_def)
next
  let ?c = "example_mirror_api
              (\<lambda>n. if n < 2 then [Some ''transferring'', Some ''idle'']
                   else [Some ''idle'', Some ''idle''])"
  let ?busy = "\<lparr>snapmirror_NumRecords = 2,
                snapmirror_AttributesList =
                  [\<lparr>SourceLocation = ''svm1:svm1_root'', RelationshipStatus = Some ''transferring''\<rparr>,
                   \<lparr>SourceLocation = ''svm1:svm1_root'', RelationshipStatus = Some ''idle''\<rparr>]\<rparr>"
  let ?idle = "\<lparr>snapmirror_NumRecords = 2,
                snapmirror_AttributesList =
                  [\<lparr>SourceLocation = ''svm1:svm1_root'', RelationshipStatus = Some ''idle''\<rparr>,
                   \<lparr>SourceLocation = ''svm1:svm1_root'', RelationshipStatus = Some ''idle''\<rparr>]\<rparr>"
  show "UpdateLoadSharingMirrors ?c = Inr (MirrorsIdle, 2, 2010000000)"
    using UpdateLoadSharingMirrors_waits
      [where client = ?c and rootVolume = "''svm1_root''" and ?r0.0 = ?busy
         and mirror = "\<lparr>SourceLocation = ''svm1:svm1_root'', RelationshipStatus = Some ''transferring''\<rparr>"
         and rest = "[\<lparr>SourceLocation = ''svm1:svm1_root'', RelationshipStatus = Some ''idle''\<rparr>]"
         and ?r1.0 = ?busy and ?r2.0 = ?idle]
    by (simp add: example_mirror_api_def Second_def)
next
  let ?c = "example_mirror_api (\<lambda>n. [Some ''transferring'', None])"
  let ?busy = "\<lparr>snapmirror_NumRecords = 2,
                snapmirror_AttributesList =
                  [\<lparr>SourceLocation = ''svm1:svm1_root'', RelationshipStatus = Some ''transferring''\<rparr>,
                   \<lparr>SourceLocation = ''svm1:svm1_root'', RelationshipStatus = None\<rparr>]\<rparr>"
  show "\<exists>m t. UpdateLoadSharingMirrors ?c = Inr (GivingUp, m, t)
            \<and> 1 \<le> m \<and> m \<le> 31 \<and> 30 * Second < t
            \<and> t - (Second + 5000000) \<le> 30 * Second"
    using UpdateLoadSharingMirrors_waits
      [where client = ?c and rootVolume = "''svm1_root''" and ?r0.0 = ?busy
         and mirror = "\<lparr>SourceLocation = ''svm1:svm1_root'', RelationshipStatus = Some ''transferring''\<rparr>"
         and rest = "[\<lparr>SourceLocation = ''svm1:svm1_root'', RelationshipStatus = None\<rparr>]"]
    by (simp add: example_mirror_api_def)
next
  show "UpdateLoadSharingMirrors (example_mirror_api (\<lambda>n. [Some ''transferring'', None]))
          = Inr (GivingUp, 30, 30150000000)"
    by (simp add: UpdateLoadSharingMirrors_def example_mirror_api_def poll_mirrors.simps
        LSMirrorIdleTimeoutSecs_def Second_def Let_def)
qed

subsection \<open>Pool discovery\<close>

text \<open>The pools built from the aggregate names, and what the attribute loop keeps.\<close>

lemma foldl_new_pools:
  "foldl (\<lambda>pools aggrName. pools(aggrName \<mapsto> NewStoragePool aggrName)) m xs =
     (\<lambda>n. if n \<in> set xs then Some (NewStoragePool n) else m n)"
  by (induction xs arbitrary: m) (auto simp: fun_eq_iff)

lemma update_pools_dom:
  "dom (fst (update_pools sa attrs pools)) = dom pools"
proof (induction sa attrs pools rule: update_pools.induct)
  case (1 sa storagePools)
  show ?case by simp
next
  case (2 sa aggrName aggrType rest storagePools)
  show ?case
  proof (cases "storagePools aggrName")
    case None
    with "2.IH"(1) show ?thesis by simp
  next
    case (Some pool)
    note pool = this
    show ?thesis
    proof (cases "ontapPerformanceClasses sa aggrType")
      case None
      with "2.IH"(2) [OF pool None] pool show ?thesis
        by (simp add: case_prod_beta)
    next
      case (Some storageAttrs)
      let ?sp = "storagePools(aggrName \<mapsto> pool\<lparr>Attributes := Attributes pool ++ storageAttrs\<rparr>)"
      have eq: "update_pools sa ((aggrName, aggrType) # rest) storagePools =
                update_pools sa rest ?sp"
        by (simp only: update_pools.simps pool Some option.case)
      have "dom (fst (update_pools sa rest ?sp)) = dom ?sp"
        by (rule "2.IH"(3) [OF pool Some])
      also have "\<dots> = dom storagePools" using pool by auto
      finally show ?thesis unfolding eq .
    qed
  qed
qed

lemma update_pools_names:
  "\<forall>n p. pools n = Some p \<longrightarrow> Name p = n \<Longrightarrow>
   \<forall>n p. fst (update_pools sa attrs pools) n = Some p \<longrightarrow> Name p = n"
proof (induction sa attrs pools rule: update_pools.induct)
  case (1 sa storagePools)
  then show ?case by simp
next
  case (2 sa aggrName aggrType rest storagePools)
  show ?case
  proof (cases "storagePools aggrName")
    case None
    with "2.IH"(1) [OF None "2.prems"] show ?thesis by simp
  next
    case (Some pool)
    note pool = this
    show ?thesis
    proof (cases "ontapPerformanceClasses sa aggrType")
      case None
      with "2.IH"(2) [OF pool None "2.prems"] pool show ?thesis
        by (simp add: case_prod_beta)
    next
      case (Some storageAttrs)
      let ?sp = "storagePools(aggrName \<mapsto> pool\<lparr>Attributes := Attributes pool ++ storageAttrs\<rparr>)"
      from "2.prems" pool have "Name pool = aggrName" by blast
      with "2.prems" have "\<forall>n p. ?sp n = Some p \<longrightarrow> Name p = n" by auto
      then have "\<forall>n p. fst (update_pools sa rest ?sp) n = Some p \<longrightarrow> Name p = n"
        by (rule "2.IH"(3) [OF pool Some])
      moreover have "update_pools sa ((aggrName, aggrType) # rest) storagePools =
                     update_pools sa rest ?sp"
        by (simp only: update_pools.simps pool Some option.case)
      ultimately show ?thesis by (simp only:)
    qed
  qed
qed

lemma foldl_AddStoragePool_at:
  assumes "\<forall>n p. pools n = Some p \<longrightarrow> Name (f p) = n"
  shows "foldl (\<lambda>backend name.
                 case pools name of
                   None \<Rightarrow> backend
                 | Some pool \<Rightarrow> AddStoragePool backend (f pool)) backend names x
         = (if x \<in> set names
            then (case pools x of None \<Rightarrow> backend x | Some pool \<Rightarrow> Some (f pool))
            else backend x)"
proof (induction names arbitrary: backend)
  case Nil
  show ?case by simp
next
  case (Cons a names)
  show ?case
  proof (cases "pools a")
    case None
    then show ?thesis using Cons.IH [of backend] by auto
  next
    case (Some pool)
    from assms Some have n: "Name (f pool) = a" by blast
    have upd: "AddStoragePool backend (f pool) = backend(a \<mapsto> f pool)"
      by (simp add: AddStoragePool_def n)
    let ?F = "\<lambda>backend name.
                case pools name of
                  None \<Rightarrow> backend
                | Some pool \<Rightarrow> AddStoragePool backend (f pool)"
    have "foldl ?F backend (a # names) x = foldl ?F (backend(a \<mapsto> f pool)) names x"
      by (simp only: foldl_Cons Some option.case upd)
    also have "\<dots> = (if x \<in> set names
                     then (case pools x of None \<Rightarrow> (backend(a \<mapsto> f pool)) x
                           | Some pool \<Rightarrow> Some (f pool))
                     else (backend(a \<mapsto> f pool)) x)"
      by (rule Cons.IH)
    also have "\<dots> = (if x \<in> set (a # names)
                     then (case pools x of None \<Rightarrow> backend x | Some pool \<Rightarrow> Some (f pool))
                     else backend x)"
      using Some by (cases "x = a") (auto split: option.splits)
    finally show ?thesis .
  qed
qed

text \<open>
  Past the checks of the assigned aggregates and of the configured aggregate, discovery is
  the chosen lookup on one new pool per name, followed by the registration of the pools.
\<close>

lemma getStorageBackendSpecsCommon_unfold:
  assumes names: "GetVserverAggregateNames client = ApiReturn (Inr vserverAggrs)"
    and nonempty: "vserverAggrs \<noteq> []"
    and restriction: "Aggregate config = [] \<or> Aggregate config \<in> set vserverAggrs"
  shows "getStorageBackendSpecsCommon sa client config backend poolAttributes =
     (let storagePools =
            (\<lambda>n. if n \<in> (if Aggregate config = [] then set vserverAggrs
                           else {Aggregate config})
                  then Some (NewStoragePool n) else None)
      in case (if SupportsFeature_VServerShowAggr client
               then getVserverAggregateAttributes sa client storagePools
               else getClusterAggregateAttributes sa client storagePools) of
           ApiPanic r \<Rightarrow> (backend, Some (ErrUnableToInspect r), [])
         | ApiReturn (aggrErr, pools1, log1) \<Rightarrow>
             (foldl
                (\<lambda>backend name.
                   case pools1 name of
                     None \<Rightarrow> backend
                   | Some pool \<Rightarrow>
                       AddStoragePool backend
                         (pool\<lparr>Attributes := Attributes pool ++ poolAttributes\<rparr>))
                backend (if Aggregate config \<noteq> [] then [Aggregate config] else vserverAggrs),
              None,
              (case aggrErr of
                 None \<Rightarrow> log1
               | Some (GoError err) \<Rightarrow> log1 @ [LogError ''Could not obtain aggregate info'']
               | Some (ZapiFailed zerr) \<Rightarrow>
                   if IsScopeError client zerr
                   then log1 @ [LogWarn ''User has insufficient privileges to obtain aggregate info.'']
                   else log1 @ [LogError ''Could not obtain aggregate info''])))"
proof -
  have sp0: "foldl (\<lambda>pools aggrName. pools(aggrName \<mapsto> NewStoragePool aggrName))
               Map.empty vserverAggrs
             = (\<lambda>n. if n \<in> set vserverAggrs then Some (NewStoragePool n) else None)"
    by (simp add: foldl_new_pools)
  show ?thesis
  proof (cases "Aggregate config = []")
    case True
    show ?thesis
      unfolding getStorageBackendSpecsCommon_def names
      using nonempty True
      by (simp add: Let_def sp0 del: fun_upd_apply
          cong: api_return.case_cong prod.case_cong)
  next
    case False
    with restriction have mem: "Aggregate config \<in> set vserverAggrs" by simp
    have one: "[Aggregate config \<mapsto> NewStoragePool (Aggregate config)] =
               (\<lambda>n. if n \<in> {Aggregate config} then Some (NewStoragePool n) else None)"
      by (simp add: fun_eq_iff)
    show ?thesis
      unfolding getStorageBackendSpecsCommon_def names
      using nonempty False mem
      by (simp add: Let_def sp0 one del: fun_upd_apply
          cong: api_return.case_cong prod.case_cong)
  qed
qed


lemma AddStoragePool_all:
  assumes "set names = K"
    and "\<forall>n p. pools n = Some p \<longrightarrow> Name p = n"
  shows "foldl (\<lambda>backend name.
                 case pools name of
                   None \<Rightarrow> backend
                 | Some pool \<Rightarrow>
                     AddStoragePool backend
                       (pool\<lparr>Attributes := Attributes pool ++ poolAttributes\<rparr>))
           backend names
         = backend ++
           (\<lambda>n. if n \<in> K
                then map_option (\<lambda>pool. pool\<lparr>Attributes := Attributes pool ++ poolAttributes\<rparr>)
                       (pools n)
                else None)"
proof (rule ext)
  fix x
  from assms(2)
  have "\<forall>n p. pools n = Some p \<longrightarrow>
          Name (p\<lparr>Attributes := Attributes p ++ poolAttributes\<rparr>) = n"
    by simp
  from foldl_AddStoragePool_at
         [where f = "\<lambda>pool. pool\<lparr>Attributes := Attributes pool ++ poolAttributes\<rparr>", OF this]
  show "foldl (\<lambda>backend name.
                 case pools name of
                   None \<Rightarrow> backend
                 | Some pool \<Rightarrow>
                     AddStoragePool backend
                       (pool\<lparr>Attributes := Attributes pool ++ poolAttributes\<rparr>))
           backend names x
         = (backend ++
           (\<lambda>n. if n \<in> K
                then map_option (\<lambda>pool. pool\<lparr>Attributes := Attributes pool ++ poolAttributes\<rparr>)
                       (pools n)
                else None)) x"
    using assms(1) by (cases "pools x") (simp_all add: map_add_def)
qed

text \<open>
  C3. When the aggregate names were read, the configured aggregate (if any) is among them, and
  the media lookup chosen by the feature query fails, discovery returns no error and
  registers every pool it built, one per name, each holding exactly the attributes common
  to all pools and nothing from the lookup. A ZAPI failure that is a scope error is logged
  as one warning and no error; any other failure of the lookup is logged as an error, and
  is not fatal either.
\<close>

theorem getStorageBackendSpecsCommon_lookup_failure:
  assumes names: "GetVserverAggregateNames client = ApiReturn (Inr vserverAggrs)"
    and nonempty: "vserverAggrs \<noteq> []"
    and restriction: "Aggregate config = [] \<or> Aggregate config \<in> set vserverAggrs"
    and lookup: "(if SupportsFeature_VServerShowAggr client
                  then VserverShowAggrGetIterRequest client
                  else AggrGetIterRequest client) = ApiReturn (Inl aggrErr)"
  shows "getStorageBackendSpecsCommon sa client config backend poolAttributes =
     (backend ++
        (\<lambda>name. if name \<in> (if Aggregate config = [] then set vserverAggrs
                             else {Aggregate config})
                then Some \<lparr>Name = name, Attributes = poolAttributes\<rparr> else None),
      None,
      (case aggrErr of
         GoError err \<Rightarrow> [LogError ''Could not obtain aggregate info'']
       | ZapiFailed zerr \<Rightarrow>
           if IsScopeError client zerr
           then [LogWarn ''User has insufficient privileges to obtain aggregate info.'']
           else [LogError ''Could not obtain aggregate info'']))"
proof -
  let ?K = "if Aggregate config = [] then set vserverAggrs else {Aggregate config}"
  let ?SP = "\<lambda>n. if n \<in> ?K then Some (NewStoragePool n) else None"
  have chosen: "(if SupportsFeature_VServerShowAggr client
                 then getVserverAggregateAttributes sa client ?SP
                 else getClusterAggregateAttributes sa client ?SP)
                = ApiReturn (Some aggrErr, ?SP, [])"
    using lookup
    by (simp add: getVserverAggregateAttributes_def getClusterAggregateAttributes_def
        split: if_splits)
  have keys: "set (if Aggregate config \<noteq> [] then [Aggregate config] else vserverAggrs) = ?K"
    by simp
  have named: "\<forall>n p. ?SP n = Some p \<longrightarrow> Name p = n"
    by (simp add: NewStoragePool_def)
  have pools: "(\<lambda>n. if n \<in> ?K
                then map_option (\<lambda>pool. pool\<lparr>Attributes := Attributes pool ++ poolAttributes\<rparr>)
                       (?SP n)
                else None)
             = (\<lambda>name. if name \<in> ?K
                       then Some \<lparr>Name = name, Attributes = poolAttributes\<rparr> else None)"
    by (rule ext) (simp add: NewStoragePool_def)
  show ?thesis
    unfolding getStorageBackendSpecsCommon_unfold [OF names nonempty restriction] Let_def chosen
      api_return.case prod.case AddStoragePool_all [OF keys named] pools
    by (cases aggrErr) simp_all
qed

theorem getStorageBackendSpecsCommon_lookup_failure_witness:
  "getStorageBackendSpecsCommon example_sa
      (example_aggr_api [''aggr1'', ''aggr2'']
         (Inl (ZapiFailed \<lparr>code = ''13003'', reason = ''Insufficient privileges''\<rparr>)))
      (example_config\<lparr>SVM := ''svm1''\<rparr>) Map.empty
      [''backendType'' \<mapsto> OtherOffer ''ontap-nas'']
   = (Map.empty ++
        (\<lambda>name. if name \<in> set [''aggr1'', ''aggr2'']
                then Some \<lparr>Name = name,
                           Attributes = [''backendType'' \<mapsto> OtherOffer ''ontap-nas'']\<rparr>
                else None),
      None, [LogWarn ''User has insufficient privileges to obtain aggregate info.''])
   \<and> getStorageBackendSpecsCommon example_sa
      (example_aggr_api [''aggr1'', ''aggr2''] (Inl (GoError ''i/o timeout'')))
      (example_config\<lparr>SVM := ''svm1''\<rparr>) Map.empty
      [''backendType'' \<mapsto> OtherOffer ''ontap-nas'']
   = (Map.empty ++
        (\<lambda>name. if name \<in> set [''aggr1'', ''aggr2'']
                then Some \<lparr>Name = name,
                           Attributes = [''backendType'' \<mapsto> OtherOffer ''ontap-nas'']\<rparr>
                else None),
      None, [LogError ''Could not obtain aggregate info''])"
  using getStorageBackendSpecsCommon_lookup_failure
      [where client = "example_aggr_api [''aggr1'', ''aggr2'']
                         (Inl (ZapiFailed \<lparr>code = ''13003'',
                                            reason = ''Insufficient privileges''\<rparr>))"
         and vserverAggrs = "[''aggr1'', ''aggr2'']"
         and config = "example_config\<lparr>SVM := ''svm1''\<rparr>"
         and aggrErr = "ZapiFailed \<lparr>code = ''13003'', reason = ''Insufficient privileges''\<rparr>"
         and sa = example_sa and backend = Map.empty
         and poolAttributes = "[''backendType'' \<mapsto> OtherOffer ''ontap-nas'']"]
    getStorageBackendSpecsCommon_lookup_failure
      [where client = "example_aggr_api [''aggr1'', ''aggr2''] (Inl (GoError ''i/o timeout''))"
         and vserverAggrs = "[''aggr1'', ''aggr2'']"
         and config = "example_config\<lparr>SVM := ''svm1''\<rparr>"
         and aggrErr = "GoError ''i/o timeout''"
         and sa = example_sa and backend = Map.empty
         and poolAttributes = "[''backendType'' \<mapsto> OtherOffer ''ontap-nas'']"]
  by (simp add: example_aggr_api_def example_config_def)

lemma lookup_keeps_pools:
  assumes reply: "(if SupportsFeature_VServerShowAggr client
                   then VserverShowAggrGetIterRequest client
                   else AggrGetIterRequest client) = ApiReturn reply"
    and named: "\<forall>n p. storagePools n = Some p \<longrightarrow> Name p = n"
  shows "\<exists>aggrErr pools1 log1.
           (if SupportsFeature_VServerShowAggr client
            then getVserverAggregateAttributes sa client storagePools
            else getClusterAggregateAttributes sa client storagePools)
             = ApiReturn (aggrErr, pools1, log1)
           \<and> dom pools1 = dom storagePools
           \<and> (\<forall>n p. pools1 n = Some p \<longrightarrow> Name p = n)"
proof (cases reply)
  case (Inl err)
  with reply have "(if SupportsFeature_VServerShowAggr client
            then getVserverAggregateAttributes sa client storagePools
            else getClusterAggregateAttributes sa client storagePools)
             = ApiReturn (Some err, storagePools, [])"
    by (simp add: getVserverAggregateAttributes_def getClusterAggregateAttributes_def
        split: if_splits)
  with named show ?thesis by blast
next
  case (Inr attributesList)
  let ?r = "update_pools sa attributesList storagePools"
  from Inr reply have "(if SupportsFeature_VServerShowAggr client
            then getVserverAggregateAttributes sa client storagePools
            else getClusterAggregateAttributes sa client storagePools)
             = ApiReturn (None, fst ?r, snd ?r)"
    by (simp add: getVserverAggregateAttributes_def getClusterAggregateAttributes_def
        case_prod_beta split: if_splits)
  moreover have "dom (fst ?r) = dom storagePools" by (rule update_pools_dom)
  moreover have "\<forall>n p. fst ?r n = Some p \<longrightarrow> Name p = n"
    using named by (rule update_pools_names)
  ultimately show ?thesis by blast
qed

lemma discovery_of_assigned_aggregates:
  assumes names: "GetVserverAggregateNames client = ApiReturn (Inr vserverAggrs)"
    and nonempty: "vserverAggrs \<noteq> []"
  shows "(Aggregate config \<noteq> [] \<and> Aggregate config \<notin> set vserverAggrs \<longrightarrow>
            getStorageBackendSpecsCommon sa client config backend poolAttributes =
              (backend, Some (ErrAggregateNotIncluded (SVM config) (Aggregate config)), []))
       \<and> ((Aggregate config = [] \<or> Aggregate config \<in> set vserverAggrs)
            \<and> (if SupportsFeature_VServerShowAggr client
                 then VserverShowAggrGetIterRequest client
                 else AggrGetIterRequest client) = ApiReturn reply \<longrightarrow>
           (\<exists>P log. getStorageBackendSpecsCommon sa client config backend poolAttributes =
                       (backend ++ P, None, log)
                   \<and> dom P = (if Aggregate config = [] then set vserverAggrs
                               else {Aggregate config})
                   \<and> (\<forall>name pool. P name = Some pool \<longrightarrow> Name pool = name)
                   \<and> (Aggregate config = [] \<and> distinct vserverAggrs \<longrightarrow>
                        card (dom P) = length vserverAggrs)
                   \<and> (Aggregate config \<noteq> [] \<longrightarrow> card (dom P) = 1)))"
proof (intro conjI impI)
  assume "Aggregate config \<noteq> [] \<and> Aggregate config \<notin> set vserverAggrs"
  then show "getStorageBackendSpecsCommon sa client config backend poolAttributes =
              (backend, Some (ErrAggregateNotIncluded (SVM config) (Aggregate config)), [])"
    unfolding getStorageBackendSpecsCommon_def names
    using nonempty by (simp add: Let_def foldl_new_pools)
next
  let ?K = "if Aggregate config = [] then set vserverAggrs else {Aggregate config}"
  let ?SP = "\<lambda>n. if n \<in> ?K then Some (NewStoragePool n) else None"
  let ?upd = "\<lambda>pool. pool\<lparr>Attributes := Attributes pool ++ poolAttributes\<rparr>"
  assume a: "(Aggregate config = [] \<or> Aggregate config \<in> set vserverAggrs)
            \<and> (if SupportsFeature_VServerShowAggr client
                 then VserverShowAggrGetIterRequest client
                 else AggrGetIterRequest client) = ApiReturn reply"
  then have restriction: "Aggregate config = [] \<or> Aggregate config \<in> set vserverAggrs"
    and reply: "(if SupportsFeature_VServerShowAggr client
                 then VserverShowAggrGetIterRequest client
                 else AggrGetIterRequest client) = ApiReturn reply"
    by simp_all
  have named: "\<forall>n p. ?SP n = Some p \<longrightarrow> Name p = n"
    by (simp add: NewStoragePool_def)
  from lookup_keeps_pools [OF reply named, of sa]
  obtain aggrErr pools1 log1 where
    chosen: "(if SupportsFeature_VServerShowAggr client
              then getVserverAggregateAttributes sa client ?SP
              else getClusterAggregateAttributes sa client ?SP)
             = ApiReturn (aggrErr, pools1, log1)"
    and dom1: "dom pools1 = dom ?SP"
    and named1: "\<forall>n p. pools1 n = Some p \<longrightarrow> Name p = n"
    by blast
  have domSP: "dom ?SP = ?K" by (auto split: if_splits)
  let ?P = "\<lambda>n. if n \<in> ?K then map_option ?upd (pools1 n) else None"
  have keys: "set (if Aggregate config \<noteq> [] then [Aggregate config] else vserverAggrs) = ?K"
    by simp
  have run: "\<exists>log. getStorageBackendSpecsCommon sa client config backend poolAttributes =
                    (backend ++ ?P, None, log)"
    unfolding getStorageBackendSpecsCommon_unfold [OF names nonempty restriction] Let_def chosen
      api_return.case prod.case AddStoragePool_all [OF keys named1]
    by simp
  have domP: "dom ?P = ?K"
    using dom1 domSP by (auto simp: dom_def split: if_splits)
  have namesP: "\<forall>name pool. ?P name = Some pool \<longrightarrow> Name pool = name"
    using named1 by (auto split: if_splits)
  have cardN: "Aggregate config = [] \<and> distinct vserverAggrs \<longrightarrow>
                 card (dom ?P) = length vserverAggrs"
    unfolding domP by (simp add: distinct_card)
  have card1: "Aggregate config \<noteq> [] \<longrightarrow> card (dom ?P) = 1"
    unfolding domP by simp
  from run domP namesP cardN card1
  show "\<exists>P log. getStorageBackendSpecsCommon sa client config backend poolAttributes =
                       (backend ++ P, None, log)
                   \<and> dom P = (if Aggregate config = [] then set vserverAggrs
                               else {Aggregate config})
                   \<and> (\<forall>name pool. P name = Some pool \<longrightarrow> Name pool = name)
                   \<and> (Aggregate config = [] \<and> distinct vserverAggrs \<longrightarrow>
                        card (dom P) = length vserverAggrs)
                   \<and> (Aggregate config \<noteq> [] \<longrightarrow> card (dom P) = 1)"
    by blast
qed

lemma discovery_lookup_panics:
  assumes names: "GetVserverAggregateNames client = ApiReturn (Inr vserverAggrs)"
    and nonempty: "vserverAggrs \<noteq> []"
    and restriction: "Aggregate config = [] \<or> Aggregate config \<in> set vserverAggrs"
    and lookup: "(if SupportsFeature_VServerShowAggr client
                  then VserverShowAggrGetIterRequest client
                  else AggrGetIterRequest client) = ApiPanic r"
  shows "getStorageBackendSpecsCommon sa client config backend poolAttributes =
           (backend, Some (ErrUnableToInspect r), [])"
proof -
  let ?SP = "\<lambda>n. if n \<in> (if Aggregate config = [] then set vserverAggrs
                            else {Aggregate config})
                   then Some (NewStoragePool n) else None"
  have chosen: "(if SupportsFeature_VServerShowAggr client
                 then getVserverAggregateAttributes sa client ?SP
                 else getClusterAggregateAttributes sa client ?SP) = ApiPanic r"
    using lookup
    by (simp add: getVserverAggregateAttributes_def getClusterAggregateAttributes_def
        split: if_splits)
  show ?thesis
    unfolding getStorageBackendSpecsCommon_unfold [OF names nonempty restriction] Let_def chosen
    by simp
qed

text \<open>
  C6 as stated fails in two ways. For a scoped context with no assigned aggregate and a
  configured aggregate, which is then not among the assigned ones, discovery fails with
  "SVM has no assigned aggregates", not with the error of an aggregate that is not
  assigned. For a scoped context with one assigned aggregate and no configured aggregate,
  a media lookup that panics makes discovery fail with "unable to inspect ONTAP backend"
  and register no pool, instead of producing one pool.
\<close>

theorem getStorageBackendSpecsCommon_no_aggregates_counterexample:
  "getStorageBackendSpecsCommon example_sa (example_aggr_api [] (Inr []))
      (example_config\<lparr>SVM := ''svm1'', Aggregate := ''aggr9''\<rparr>) Map.empty Map.empty
   = (Map.empty, Some (ErrNoAssignedAggregates ''svm1''), [])
   \<and> fst (snd (getStorageBackendSpecsCommon example_sa (example_aggr_api [] (Inr []))
      (example_config\<lparr>SVM := ''svm1'', Aggregate := ''aggr9''\<rparr>) Map.empty Map.empty))
     \<noteq> Some (ErrAggregateNotIncluded ''svm1'' ''aggr9'')
   \<and> getStorageBackendSpecsCommon example_sa
      ((example_aggr_api [''aggr1''] (Inr []))
         \<lparr>VserverShowAggrGetIterRequest := ApiPanic ''nil pointer dereference''\<rparr>)
      (example_config\<lparr>SVM := ''svm1''\<rparr>) Map.empty Map.empty
   = (Map.empty, Some (ErrUnableToInspect ''nil pointer dereference''), [])"
  by (simp add: getStorageBackendSpecsCommon_def example_aggr_api_def example_config_def
      getVserverAggregateAttributes_def)

text \<open>
  C6, amended. For a scoped context with no assigned aggregate, discovery fails with "SVM
  has no assigned aggregates" and registers no pool, whatever aggregate is configured. For
  a scoped context with at least one assigned aggregate: a configured aggregate that is
  not among the assigned ones makes discovery fail with the error of an aggregate that is
  not assigned, and no pool is registered. Otherwise, when the chosen media lookup returns
  (with a reply or with a failure), discovery succeeds and adds to the backend one pool per
  name, keyed and named by it: the assigned aggregate names when no aggregate is
  configured, which makes as many pools as there are assigned aggregates when their names
  are distinct, and the configured aggregate alone, one pool, when it is among the
  assigned ones; and when the chosen media lookup panics, discovery fails with "unable to
  inspect ONTAP backend" and registers no pool.
\<close>

theorem getStorageBackendSpecsCommon_pools:
  assumes names: "GetVserverAggregateNames client = ApiReturn (Inr vserverAggrs)"
  shows "(vserverAggrs = [] \<longrightarrow>
            getStorageBackendSpecsCommon sa client config backend poolAttributes =
              (backend, Some (ErrNoAssignedAggregates (SVM config)), []))
       \<and> (vserverAggrs \<noteq> [] \<and> Aggregate config \<noteq> []
            \<and> Aggregate config \<notin> set vserverAggrs \<longrightarrow>
            getStorageBackendSpecsCommon sa client config backend poolAttributes =
              (backend, Some (ErrAggregateNotIncluded (SVM config) (Aggregate config)), []))
       \<and> (vserverAggrs \<noteq> []
            \<and> (Aggregate config = [] \<or> Aggregate config \<in> set vserverAggrs)
            \<and> (if SupportsFeature_VServerShowAggr client
                 then VserverShowAggrGetIterRequest client
                 else AggrGetIterRequest client) = ApiReturn reply \<longrightarrow>
           (\<exists>P log. getStorageBackendSpecsCommon sa client config backend poolAttributes =
                       (backend ++ P, None, log)
                   \<and> dom P = (if Aggregate config = [] then set vserverAggrs
                               else {Aggregate config})
                   \<and> (\<forall>name pool. P name = Some pool \<longrightarrow> Name pool = name)
                   \<and> (Aggregate config = [] \<and> distinct vserverAggrs \<longrightarrow>
                        card (dom P) = length vserverAggrs)
                   \<and> (Aggregate config \<noteq> [] \<longrightarrow> card (dom P) = 1)))
       \<and> (vserverAggrs \<noteq> []
            \<and> (Aggregate config = [] \<or> Aggregate config \<in> set vserverAggrs)
            \<and> (if SupportsFeature_VServerShowAggr client
                 then VserverShowAggrGetIterRequest client
                 else AggrGetIterRequest client) = ApiPanic r \<longrightarrow>
            getStorageBackendSpecsCommon sa client config backend poolAttributes =
              (backend, Some (ErrUnableToInspect r), []))"
proof (intro conjI impI)
  assume "vserverAggrs = []"
  then show "getStorageBackendSpecsCommon sa client config backend poolAttributes =
              (backend, Some (ErrNoAssignedAggregates (SVM config)), [])"
    unfolding getStorageBackendSpecsCommon_def names by simp
next
  assume a: "vserverAggrs \<noteq> [] \<and> Aggregate config \<noteq> []
            \<and> Aggregate config \<notin> set vserverAggrs"
  then have nonempty: "vserverAggrs \<noteq> []"
    and out: "Aggregate config \<noteq> [] \<and> Aggregate config \<notin> set vserverAggrs"
    by simp_all
  from discovery_of_assigned_aggregates [OF names nonempty, THEN conjunct1, THEN mp, OF out]
  show "getStorageBackendSpecsCommon sa client config backend poolAttributes =
              (backend, Some (ErrAggregateNotIncluded (SVM config) (Aggregate config)), [])" .
next
  assume a: "vserverAggrs \<noteq> []
            \<and> (Aggregate config = [] \<or> Aggregate config \<in> set vserverAggrs)
            \<and> (if SupportsFeature_VServerShowAggr client
                 then VserverShowAggrGetIterRequest client
                 else AggrGetIterRequest client) = ApiReturn reply"
  then have nonempty: "vserverAggrs \<noteq> []"
    and pre: "(Aggregate config = [] \<or> Aggregate config \<in> set vserverAggrs)
            \<and> (if SupportsFeature_VServerShowAggr client
                 then VserverShowAggrGetIterRequest client
                 else AggrGetIterRequest client) = ApiReturn reply"
    by simp_all
  from discovery_of_assigned_aggregates [OF names nonempty, THEN conjunct2, THEN mp, OF pre]
  show "\<exists>P log. getStorageBackendSpecsCommon sa client config backend poolAttributes =
                       (backend ++ P, None, log)
                   \<and> dom P = (if Aggregate config = [] then set vserverAggrs
                               else {Aggregate config})
                   \<and> (\<forall>name pool. P name = Some pool \<longrightarrow> Name pool = name)
                   \<and> (Aggregate config = [] \<and> distinct vserverAggrs \<longrightarrow>
                        card (dom P) = length vserverAggrs)
                   \<and> (Aggregate config \<noteq> [] \<longrightarrow> card (dom P) = 1)" .
next
  assume a: "vserverAggrs \<noteq> []
            \<and> (Aggregate config = [] \<or> Aggregate config \<in> set vserverAggrs)
            \<and> (if SupportsFeature_VServerShowAggr client
                 then VserverShowAggrGetIterRequest client
                 else AggrGetIterRequest client) = ApiPanic r"
  then have nonempty: "vserverAggrs \<noteq> []"
    and restriction: "Aggregate config = [] \<or> Aggregate config \<in> set vserverAggrs"
    and lookup: "(if SupportsFeature_VServerShowAggr client
                 then VserverShowAggrGetIterRequest client
                 else AggrGetIterRequest client) = ApiPanic r"
    by simp_all
  from discovery_lookup_panics [OF names nonempty restriction lookup]
  show "getStorageBackendSpecsCommon sa client config backend poolAttributes =
              (backend, Some (ErrUnableToInspect r), [])" .
qed


theorem getStorageBackendSpecsCommon_pools_witness:
  "getStorageBackendSpecsCommon example_sa (example_aggr_api [] (Inr []))
      (example_config\<lparr>SVM := ''svm1'', Aggregate := ''aggr2''\<rparr>) Map.empty Map.empty
   = (Map.empty, Some (ErrNoAssignedAggregates ''svm1''), [])
   \<and> getStorageBackendSpecsCommon example_sa
      (example_aggr_api [''aggr1'', ''aggr2'', ''aggr3'']
         (Inr [(''aggr1'', ''ssd''), (''aggr2'', ''hdd''), (''aggr7'', ''hybrid'')]))
      (example_config\<lparr>SVM := ''svm1'', Aggregate := ''aggr9''\<rparr>) Map.empty Map.empty
   = (Map.empty, Some (ErrAggregateNotIncluded ''svm1'' ''aggr9''), [])
   \<and> (\<exists>P log. getStorageBackendSpecsCommon example_sa
          (example_aggr_api [''aggr1'', ''aggr2'', ''aggr3'']
             (Inr [(''aggr1'', ''ssd''), (''aggr2'', ''hdd''), (''aggr7'', ''hybrid'')]))
          (example_config\<lparr>SVM := ''svm1''\<rparr>) Map.empty Map.empty
        = (Map.empty ++ P, None, log)
        \<and> dom P = {''aggr1'', ''aggr2'', ''aggr3''} \<and> card (dom P) = 3)
   \<and> (\<exists>P log. getStorageBackendSpecsCommon example_sa
          (example_aggr_api [''aggr1'', ''aggr2'', ''aggr3'']
             (Inr [(''aggr1'', ''ssd''), (''aggr2'', ''hdd''), (''aggr7'', ''hybrid'')]))
          (example_config\<lparr>SVM := ''svm1'', Aggregate := ''aggr2''\<rparr>) Map.empty Map.empty
        = (Map.empty ++ P, None, log)
        \<and> dom P = {''aggr2''} \<and> card (dom P) = 1)
   \<and> getStorageBackendSpecsCommon example_sa
      ((example_aggr_api [''aggr1'', ''aggr2'', ''aggr3''] (Inr []))
         \<lparr>VserverShowAggrGetIterRequest := ApiPanic ''nil pointer dereference''\<rparr>)
      (example_config\<lparr>SVM := ''svm1''\<rparr>) Map.empty Map.empty
   = (Map.empty, Some (ErrUnableToInspect ''nil pointer dereference''), [])"
proof (intro conjI)
  let ?none = "example_aggr_api [] (Inr [])"
  let ?c = "example_config\<lparr>SVM := ''svm1'', Aggregate := ''aggr2''\<rparr>"
  have names: "GetVserverAggregateNames ?none = ApiReturn (Inr [])"
    by (simp add: example_aggr_api_def)
  have svm: "SVM ?c = ''svm1''" by (simp add: example_config_def)
  from getStorageBackendSpecsCommon_pools
         [OF names, where sa = example_sa and config = ?c and backend = Map.empty
            and poolAttributes = Map.empty, THEN conjunct1, THEN mp, OF refl]
  show "getStorageBackendSpecsCommon example_sa ?none ?c Map.empty Map.empty
        = (Map.empty, Some (ErrNoAssignedAggregates ''svm1''), [])"
    unfolding svm .
next
  let ?client = "example_aggr_api [''aggr1'', ''aggr2'', ''aggr3'']
             (Inr [(''aggr1'', ''ssd''), (''aggr2'', ''hdd''), (''aggr7'', ''hybrid'')])"
  let ?c = "example_config\<lparr>SVM := ''svm1'', Aggregate := ''aggr9''\<rparr>"
  have names: "GetVserverAggregateNames ?client
                 = ApiReturn (Inr [''aggr1'', ''aggr2'', ''aggr3''])"
    by (simp add: example_aggr_api_def)
  have agg: "Aggregate ?c = ''aggr9''" and svm: "SVM ?c = ''svm1''"
    by (simp_all add: example_config_def)
  have pre: "[''aggr1'', ''aggr2'', ''aggr3''] \<noteq> [] \<and> Aggregate ?c \<noteq> []
             \<and> Aggregate ?c \<notin> set [''aggr1'', ''aggr2'', ''aggr3'']"
    unfolding agg by simp
  from getStorageBackendSpecsCommon_pools
         [OF names, where sa = example_sa and config = ?c and backend = Map.empty
            and poolAttributes = Map.empty,
          THEN conjunct2, THEN conjunct1, THEN mp, OF pre]
  show "getStorageBackendSpecsCommon example_sa ?client ?c Map.empty Map.empty
        = (Map.empty, Some (ErrAggregateNotIncluded ''svm1'' ''aggr9''), [])"
    unfolding agg svm .
next
  let ?client = "example_aggr_api [''aggr1'', ''aggr2'', ''aggr3'']
             (Inr [(''aggr1'', ''ssd''), (''aggr2'', ''hdd''), (''aggr7'', ''hybrid'')])"
  let ?c = "example_config\<lparr>SVM := ''svm1''\<rparr>"
  have names: "GetVserverAggregateNames ?client
                 = ApiReturn (Inr [''aggr1'', ''aggr2'', ''aggr3''])"
    and reply: "(if SupportsFeature_VServerShowAggr ?client
                 then VserverShowAggrGetIterRequest ?client
                 else AggrGetIterRequest ?client)
                = ApiReturn (Inr [(''aggr1'', ''ssd''), (''aggr2'', ''hdd''), (''aggr7'', ''hybrid'')])"
    by (simp_all add: example_aggr_api_def)
  have agg: "Aggregate ?c = []" by (simp add: example_config_def)
  have pre: "[''aggr1'', ''aggr2'', ''aggr3''] \<noteq> []
             \<and> (Aggregate ?c = [] \<or> Aggregate ?c \<in> set [''aggr1'', ''aggr2'', ''aggr3''])
             \<and> (if SupportsFeature_VServerShowAggr ?client
                  then VserverShowAggrGetIterRequest ?client
                  else AggrGetIterRequest ?client)
               = ApiReturn (Inr [(''aggr1'', ''ssd''), (''aggr2'', ''hdd''), (''aggr7'', ''hybrid'')])"
    using agg reply by (intro conjI disjI1) simp_all
  from getStorageBackendSpecsCommon_pools
         [OF names, where sa = example_sa and config = ?c and backend = Map.empty
            and poolAttributes = Map.empty,
          THEN conjunct2, THEN conjunct2, THEN conjunct1, THEN mp, OF pre]
  obtain P log where
    r: "getStorageBackendSpecsCommon example_sa ?client ?c Map.empty Map.empty
          = (Map.empty ++ P, None, log)"
    and d: "dom P = (if Aggregate ?c = [] then set [''aggr1'', ''aggr2'', ''aggr3'']
                     else {Aggregate ?c})"
    and n: "Aggregate ?c = [] \<and> distinct [''aggr1'', ''aggr2'', ''aggr3''] \<longrightarrow>
              card (dom P) = length [''aggr1'', ''aggr2'', ''aggr3'']"
    by (elim exE conjE) (rule that; assumption)
  have dist: "distinct [''aggr1'', ''aggr2'', ''aggr3'']" by simp
  from d agg have d': "dom P = {''aggr1'', ''aggr2'', ''aggr3''}" by simp
  from n agg dist have "card (dom P) = 3" by simp
  with r d'
  show "\<exists>P log. getStorageBackendSpecsCommon example_sa ?client ?c Map.empty Map.empty
                  = (Map.empty ++ P, None, log)
                \<and> dom P = {''aggr1'', ''aggr2'', ''aggr3''} \<and> card (dom P) = 3"
    by (intro exI [of _ P] exI [of _ log] conjI)
next
  let ?client = "example_aggr_api [''aggr1'', ''aggr2'', ''aggr3'']
             (Inr [(''aggr1'', ''ssd''), (''aggr2'', ''hdd''), (''aggr7'', ''hybrid'')])"
  let ?c = "example_config\<lparr>SVM := ''svm1'', Aggregate := ''aggr2''\<rparr>"
  have names: "GetVserverAggregateNames ?client
                 = ApiReturn (Inr [''aggr1'', ''aggr2'', ''aggr3''])"
    and reply: "(if SupportsFeature_VServerShowAggr ?client
                 then VserverShowAggrGetIterRequest ?client
                 else AggrGetIterRequest ?client)
                = ApiReturn (Inr [(''aggr1'', ''ssd''), (''aggr2'', ''hdd''), (''aggr7'', ''hybrid'')])"
    by (simp_all add: example_aggr_api_def)
  have agg: "Aggregate ?c = ''aggr2''" by (simp add: example_config_def)
  have pre: "[''aggr1'', ''aggr2'', ''aggr3''] \<noteq> []
             \<and> (Aggregate ?c = [] \<or> Aggregate ?c \<in> set [''aggr1'', ''aggr2'', ''aggr3''])
             \<and> (if SupportsFeature_VServerShowAggr ?client
                  then VserverShowAggrGetIterRequest ?client
                  else AggrGetIterRequest ?client)
               = ApiReturn (Inr [(''aggr1'', ''ssd''), (''aggr2'', ''hdd''), (''aggr7'', ''hybrid'')])"
    using reply by (intro conjI disjI2) (simp_all add: agg)
  from getStorageBackendSpecsCommon_pools
         [OF names, where sa = example_sa and config = ?c and backend = Map.empty
            and poolAttributes = Map.empty,
          THEN conjunct2, THEN conjunct2, THEN conjunct1, THEN mp, OF pre]
  obtain P log where
    r: "getStorageBackendSpecsCommon example_sa ?client ?c Map.empty Map.empty
          = (Map.empty ++ P, None, log)"
    and d: "dom P = (if Aggregate ?c = [] then set [''aggr1'', ''aggr2'', ''aggr3'']
                     else {Aggregate ?c})"
    and n: "Aggregate ?c \<noteq> [] \<longrightarrow> card (dom P) = 1"
    by (elim exE conjE) (rule that; assumption)
  from d have d': "dom P = {''aggr2''}" unfolding agg by simp
  from n have "card (dom P) = 1" unfolding agg by simp
  with r d'
  show "\<exists>P log. getStorageBackendSpecsCommon example_sa ?client ?c Map.empty Map.empty
                  = (Map.empty ++ P, None, log)
                \<and> dom P = {''aggr2''} \<and> card (dom P) = 1"
    by (intro exI [of _ P] exI [of _ log] conjI)
next
  let ?client = "(example_aggr_api [''aggr1'', ''aggr2'', ''aggr3''] (Inr []))
                   \<lparr>VserverShowAggrGetIterRequest := ApiPanic ''nil pointer dereference''\<rparr>"
  let ?c = "example_config\<lparr>SVM := ''svm1''\<rparr>"
  have names: "GetVserverAggregateNames ?client
                 = ApiReturn (Inr [''aggr1'', ''aggr2'', ''aggr3''])"
    and lookup: "(if SupportsFeature_VServerShowAggr ?client
                 then VserverShowAggrGetIterRequest ?client
                 else AggrGetIterRequest ?client)
                = ApiPanic ''nil pointer dereference''"
    by (simp_all add: example_aggr_api_def)
  have agg: "Aggregate ?c = []" by (simp add: example_config_def)
  have pre: "[''aggr1'', ''aggr2'', ''aggr3''] \<noteq> []
             \<and> (Aggregate ?c = [] \<or> Aggregate ?c \<in> set [''aggr1'', ''aggr2'', ''aggr3''])
             \<and> (if SupportsFeature_VServerShowAggr ?client
                  then VserverShowAggrGetIterRequest ?client
                  else AggrGetIterRequest ?client)
               = ApiPanic ''nil pointer dereference''"
    using agg lookup by (intro conjI disjI1) simp_all
  from getStorageBackendSpecsCommon_pools
         [OF names, where sa = example_sa and config = ?c and backend = Map.empty
            and poolAttributes = Map.empty,
          THEN conjunct2, THEN conjunct2, THEN conjunct2, THEN mp, OF pre]
  show "getStorageBackendSpecsCommon example_sa ?client ?c Map.empty Map.empty
        = (Map.empty, Some (ErrUnableToInspect ''nil pointer dereference''), [])" .
qed

end
